theory Spec2Isabelle
  imports Complex_Main
begin

section \<open>The data model read by demesdraw\<close>

text \<open>
  Python floats are modelled as real numbers. A time that may be \<open>math.inf\<close> (the start
  time of an epoch or of a deme) has the type \<open>ftime\<close>; \<open>np.isinf\<close> is the test for its
  second constructor. End times and sizes are finite in every \<open>demes.Graph\<close>.
\<close>

datatype ftime = Finite real | Inf

fun isinf :: "ftime \<Rightarrow> bool" where
  "isinf Inf = True"
| "isinf (Finite t) = False"

record epoch =
  start_time :: ftime
  end_time :: real
  start_size :: real
  end_size :: real
  size_function :: string

record deme =
  deme_id :: string
  deme_start_time :: ftime
  epochs :: "epoch list"
  ancestors :: "string list"

record graph =
  demes :: "deme list"
  time_units :: string

text \<open>
  Failures. The first four are Python exceptions. \<open>NonFinite\<close> is not one: it marks a
  horizon that numpy computes as \<open>inf\<close> or \<open>nan\<close>, which the model, with real times on
  the axis, does not follow further.
\<close>

datatype error = ValueError string | ZeroDivisionError | IndexError | KeyError string | NonFinite

section \<open>numpy floats\<close>

text \<open>
  A numpy float is a real number, an infinity or \<open>nan\<close>. The operations below are those
  of numpy on such values: they warn and return \<open>inf\<close> or \<open>nan\<close>, and never raise.
  Rounding, overflow and the sign of zero are not modelled.
\<close>

datatype npfloat = Real real | PosInf | NegInf | NaN

text \<open>\<open>np.log\<close> of a Python float.\<close>

definition np_log :: "real \<Rightarrow> npfloat" where
  "np_log x = (if 0 < x then Real (ln x) else if x = 0 then NegInf else NaN)"

fun np_exp :: "npfloat \<Rightarrow> npfloat" where
  "np_exp (Real a) = Real (exp a)"
| "np_exp PosInf = PosInf"
| "np_exp NegInf = Real 0"
| "np_exp NaN = NaN"

text \<open>The product of a numpy float and a Python float.\<close>

fun np_mul :: "npfloat \<Rightarrow> real \<Rightarrow> npfloat" where
  "np_mul (Real a) b = Real (a * b)"
| "np_mul PosInf b = (if 0 < b then PosInf else if b < 0 then NegInf else NaN)"
| "np_mul NegInf b = (if 0 < b then NegInf else if b < 0 then PosInf else NaN)"
| "np_mul NaN b = NaN"

text \<open>A numpy float divided by a Python float; a zero divisor gives \<open>inf\<close> or \<open>nan\<close>.\<close>

fun np_div :: "npfloat \<Rightarrow> real \<Rightarrow> npfloat" where
  "np_div (Real a) b =
     (if b = 0 then (if 0 < a then PosInf else if a < 0 then NegInf else NaN)
      else Real (a / b))"
| "np_div PosInf b = (if b < 0 then NegInf else PosInf)"
| "np_div NegInf b = (if b < 0 then PosInf else NegInf)"
| "np_div NaN b = NaN"

fun np_add :: "npfloat \<Rightarrow> npfloat \<Rightarrow> npfloat" where
  "np_add (Real a) (Real b) = Real (a + b)"
| "np_add NaN v = NaN"
| "np_add v NaN = NaN"
| "np_add PosInf NegInf = NaN"
| "np_add NegInf PosInf = NaN"
| "np_add PosInf v = PosInf"
| "np_add v PosInf = PosInf"
| "np_add NegInf v = NegInf"
| "np_add v NegInf = NegInf"

section \<open>utils.inf\_start\_time\<close>

text \<open>The loop of lines 14 to 18; \<open>deme.epochs[0]\<close> raises IndexError on an empty list.\<close>

fun epoch0_times :: "deme list \<Rightarrow> error + real list" where
  "epoch0_times [] = Inr []"
| "epoch0_times (d # ds) =
     (case epochs d of
        [] \<Rightarrow> Inl IndexError
      | e0 # _ \<Rightarrow>
          (case epoch0_times ds of
             Inl err \<Rightarrow> Inl err
           | Inr ts \<Rightarrow>
               Inr (end_time e0 #
                    (case start_time e0 of Inf \<Rightarrow> [] | Finite t \<Rightarrow> [t]) @ ts)))"

text \<open>Python's \<open>max\<close> of a list: ValueError on the empty list.\<close>

fun py_max :: "real list \<Rightarrow> error + real" where
  "py_max [] = Inl (ValueError ''max() arg is an empty sequence'')"
| "py_max (x # xs) = Inr (fold max xs x)"

definition oldest_noninf_time :: "graph \<Rightarrow> error + real" where
  "oldest_noninf_time g =
     (case epoch0_times (demes g) of Inl err \<Rightarrow> Inl err | Inr ts \<Rightarrow> py_max ts)"

text \<open>Division of Python floats raises on a zero divisor.\<close>

definition py_div :: "real \<Rightarrow> real \<Rightarrow> error + real" where
  "py_div a b = (if b = 0 then Inl ZeroDivisionError else Inr (a / b))"

text \<open>
  Lines 19 to 31. On a logarithmic axis the result is a numpy float; when it is not a
  real number, which takes a negative maximum or a ratio of 1, the model ends with
  \<open>NonFinite\<close>.
\<close>

definition inf_start_time :: "graph \<Rightarrow> real \<Rightarrow> bool \<Rightarrow> error + real" where
  "inf_start_time g inf_ratio log_scale =
     (case oldest_noninf_time g of
        Inl err \<Rightarrow> Inl err
      | Inr T \<Rightarrow>
          if T = 0 then Inr 113
          else if log_scale then
            (case np_exp (np_div (np_log T) (1 - inf_ratio)) of
               Real v \<Rightarrow> Inr v
             | _ \<Rightarrow> Inl NonFinite)
          else py_div T (1 - inf_ratio))"

section \<open>The calls size\_history makes on the axes\<close>

datatype cmap = Tab10 | Tab20 | UserCmap string

text \<open>\<open>Colour cm j\<close> is the colour \<open>cm(j)\<close> of a colour map.\<close>

datatype colour = Colour cmap nat | Black | DefaultColour

text \<open>
  The keyword arguments of a line. \<open>alpha=0.7\<close> and \<open>solid_capstyle="butt"\<close> are the
  same in every call and are left out.
\<close>

record line_kwargs =
  color :: colour
  linestyle :: string
  linewidth :: nat
  label :: "string option"
  zorder :: int

datatype call =
    Plot "ftime list" "npfloat list" line_kwargs
  | PlotMarker real real string colour int
  | Annotate string "npfloat \<times> npfloat" "real \<times> real" colour
  | Legend "line_kwargs list" nat int
  | SetTitle string
  | SetXlim real real
  | SpineHide string
  | InvertXaxis
  | YTickRight
  | YLabelRight
  | SetXlabel string
  | SetYlabel string
  | SetXscaleLog
  | SetYscaleLog
  | TightLayout

text \<open>The keyword parameters of \<open>size_history\<close>, with their defaults.\<close>

record options =
  inf_ratio :: real
  inf_label :: bool
  invert_x :: bool
  num_exp_points :: int
  annotate_epochs :: bool
  cmap :: "cmap option"
  log_x :: bool
  log_y :: bool
  title :: "string option"

definition default_options :: options where
  "default_options =
     \<lparr>inf_ratio = 1 / 10, inf_label = False, invert_x = False, num_exp_points = 100,
      annotate_epochs = False, cmap = None, log_x = False, log_y = False, title = None\<rparr>"

section \<open>Helpers of size\_history\<close>

text \<open>Lines 58 to 66: the colour map.\<close>

definition choose_cmap :: "cmap option \<Rightarrow> nat \<Rightarrow> error + cmap" where
  "choose_cmap cm n =
     (case cm of
        Some c \<Rightarrow> Inr c
      | None \<Rightarrow>
          if n \<le> 10 then Inr Tab10
          else if n \<le> 20 then Inr Tab20
          else Inl (ValueError
            ''Graph has more than 20 demes, so cmap must be specified. Good luck!''))"

text \<open>The decimal digits of a natural number, as \<open>str\<close> and f-strings print it.\<close>

function str_nat :: "nat \<Rightarrow> string" where
  "str_nat n =
     (if n < 10 then [''0123456789'' ! n]
      else str_nat (n div 10) @ [''0123456789'' ! (n mod 10)])"
  by pat_completeness auto
termination
  by (relation "measure id") auto

declare str_nat.simps [simp del]

text \<open>
  \<open>np.linspace(start, stop, num)\<close>: \<open>num\<close> evenly spaced samples, the first at \<open>start\<close>
  and, when there are at least two, the last at \<open>stop\<close>; ValueError on a negative count.
\<close>

definition linspace :: "real \<Rightarrow> real \<Rightarrow> int \<Rightarrow> error + real list" where
  "linspace start stop num =
     (if num < 0 then
        Inl (ValueError (''Number of samples, -'' @ str_nat (nat (- num)) @
                         '', must be non-negative.''))
      else if num = 1 then Inr [start]
      else Inr (map (\<lambda>i. start + real i * ((stop - start) / real (nat num - 1)))
                  [0..<nat num]))"

text \<open>Lines 116 to 119: the message of the error for an unknown size function.\<close>

definition unknown_size_function :: "nat \<Rightarrow> string \<Rightarrow> error" where
  "unknown_size_function k sf =
     ValueError (''Don't know how to plot epoch '' @ str_nat k @ '' with \"'' @ sf @
                 ''\" size_function.'')"

text \<open>Lines 100 to 105: the times an epoch is plotted at.\<close>

definition plot_start_time :: "real \<Rightarrow> epoch \<Rightarrow> real" where
  "plot_start_time ist e = (case start_time e of Inf \<Rightarrow> ist | Finite t \<Rightarrow> t)"

definition plot_end_time :: "bool \<Rightarrow> epoch \<Rightarrow> real" where
  "plot_end_time logx e = (if end_time e = 0 \<and> logx then 1 else end_time e)"

text \<open>Line 114: the size at normalised progress \<open>dt\<close>, for the rate \<open>r\<close>.\<close>

definition exp_size :: "epoch \<Rightarrow> npfloat \<Rightarrow> real \<Rightarrow> npfloat" where
  "exp_size e r dt = np_mul (np_exp (np_mul r dt)) (start_size e)"

text \<open>
  Line 113: the rate of an exponential epoch. The sizes are Python floats, so the
  division raises on a start size of zero; the logarithm does not raise.
\<close>

definition exp_rate :: "epoch \<Rightarrow> error + npfloat" where
  "exp_rate e =
     (case py_div (end_size e) (start_size e) of
        Inl err \<Rightarrow> Inl err
      | Inr q \<Rightarrow> Inr (np_log q))"

text \<open>Lines 107 to 119: the coordinates of epoch \<open>k\<close>.\<close>

definition epoch_coords ::
  "real \<Rightarrow> bool \<Rightarrow> int \<Rightarrow> nat \<Rightarrow> epoch \<Rightarrow> error + (real list \<times> npfloat list)" where
  "epoch_coords ist logx n k e =
     (if size_function e = ''constant'' then
        Inr ([plot_start_time ist e, plot_end_time logx e],
             [Real (start_size e), Real (end_size e)])
      else if size_function e = ''exponential'' then
        (case linspace (plot_start_time ist e) (plot_end_time logx e) n of
           Inl err \<Rightarrow> Inl err
         | Inr x \<Rightarrow>
             (case linspace 0 1 n of
                Inl err \<Rightarrow> Inl err
              | Inr dt \<Rightarrow>
                  (case exp_rate e of
                     Inl err \<Rightarrow> Inl err
                   | Inr r \<Rightarrow> Inr (x, map (exp_size e r) dt))))
      else Inl (unknown_size_function k (size_function e)))"

section \<open>size\_history\<close>

text \<open>
  A part of the run is the calls it made on the axes, in order, and the exception that
  ended it, if any. The axes are changed in place, so the calls made before an exception
  stay made.
\<close>

type_synonym run = "call list \<times> error option"

definition and_then :: "run \<Rightarrow> run \<Rightarrow> run" where
  "and_then a b =
     (case a of
        (cs, Some err) \<Rightarrow> (cs, Some err)
      | (cs, None) \<Rightarrow> (cs @ fst b, snd b))"

fun for_loop :: "('a \<Rightarrow> run) \<Rightarrow> 'a list \<Rightarrow> run" where
  "for_loop body [] = ([], None)"
| "for_loop body (x # xs) = and_then (body x) (for_loop body xs)"

text \<open>Lines 70 to 96. \<open>max(linewidths)\<close> is 8, and \<open>linestyles\<close> has one entry.\<close>

definition linewidths :: "nat list" where
  "linewidths = [2, 4, 8, 1]"

definition z_top :: "graph \<Rightarrow> int" where
  "z_top g = 1 + int (length (demes g)) + 8"

definition plot_kwargs :: "graph \<Rightarrow> cmap \<Rightarrow> nat \<Rightarrow> deme \<Rightarrow> line_kwargs" where
  "plot_kwargs g cm j d =
     \<lparr>color = Colour cm j, linestyle = ''solid'',
      linewidth = linewidths ! (j mod length linewidths), label = Some (deme_id d),
      zorder = z_top g - int (linewidths ! (j mod length linewidths))\<rparr>"

definition discontinuity_kwargs :: "graph \<Rightarrow> cmap \<Rightarrow> nat \<Rightarrow> line_kwargs" where
  "discontinuity_kwargs g cm j =
     \<lparr>color = Colour cm j, linestyle = '':'',
      linewidth = linewidths ! (j mod length linewidths), label = None,
      zorder = z_top g - int (linewidths ! (j mod length linewidths))\<rparr>"

text \<open>Lines 131 to 138: \<open>np.exp((np.log(a) + np.log(b)) / 2)\<close>.\<close>

definition log_mid :: "real \<Rightarrow> real \<Rightarrow> npfloat" where
  "log_mid a b = np_exp (np_div (np_add (np_log a) (np_log b)) 2)"

text \<open>Lines 130 to 155: the annotation of epoch \<open>k\<close> of deme \<open>j\<close>.\<close>

definition epoch_annotation ::
  "graph \<Rightarrow> options \<Rightarrow> real \<Rightarrow> cmap \<Rightarrow> nat \<Rightarrow> nat \<Rightarrow> epoch \<Rightarrow> call" where
  "epoch_annotation g opts ist cm j k e =
     (let text_x =
            (if log_x opts
             then log_mid (plot_start_time ist e) (plot_end_time (log_x opts) e)
             else Real ((plot_start_time ist e + plot_end_time (log_x opts) e) / 2));
          text_y =
            (if log_y opts
             then log_mid (1 + start_size e) (1 + end_size e)
             else Real ((start_size e + end_size e) / 2))
      in Annotate (''epoch '' @ str_nat k) (text_x, text_y)
           (0, 4 + real (linewidths ! (j mod length linewidths)) / 2)
           (if length (demes g) = 1 then Black else Colour cm j))"

text \<open>Lines 99 to 155: the body of the loop over \<open>enumerate(deme.epochs)\<close>.\<close>

definition epoch_body ::
  "graph \<Rightarrow> options \<Rightarrow> real \<Rightarrow> cmap \<Rightarrow> nat \<Rightarrow> deme \<Rightarrow> nat \<times> epoch \<Rightarrow> run" where
  "epoch_body g opts ist cm j d ke =
     (case ke of (k, e) \<Rightarrow>
        (case epoch_coords ist (log_x opts) (num_exp_points opts) k e of
           Inl err \<Rightarrow> ([], Some err)
         | Inr (x, y) \<Rightarrow>
             (Plot (map Finite x) y (plot_kwargs g cm j d) #
              (if k > 0 \<and> end_size (epochs d ! (k - 1)) \<noteq> start_size e
               then [Plot [Finite (end_time (epochs d ! (k - 1))), start_time e]
                          [Real (end_size (epochs d ! (k - 1))), Real (start_size e)]
                          (discontinuity_kwargs g cm j)]
               else []) @
              (if annotate_epochs opts then [epoch_annotation g opts ist cm j k e] else []),
              None)))"

text \<open>Lines 157 to 177: the arrow of a deme that starts at infinity.\<close>

definition infinity_arrow :: "graph \<Rightarrow> options \<Rightarrow> real \<Rightarrow> cmap \<Rightarrow> nat \<Rightarrow> deme \<Rightarrow> run" where
  "infinity_arrow g opts ist cm j d =
     (if isinf (deme_start_time d) then
        (case epochs d of
           [] \<Rightarrow> ([], Some IndexError)
         | e0 # _ \<Rightarrow>
             (PlotMarker ist (start_size e0) (if invert_x opts then ''<k'' else ''>k'')
                (Colour cm j) (z_top g) #
              (if inf_label opts
               then [Annotate ''inf'' (Real ist, Real (start_size e0)) (0, - 6) DefaultColour]
               else []),
              None))
      else ([], None))"

text \<open>\<open>graph[ancestor_id]\<close>: the deme of that name, KeyError when there is none.\<close>

definition lookup_deme :: "graph \<Rightarrow> string \<Rightarrow> error + deme" where
  "lookup_deme g i =
     (case find (\<lambda>d. deme_id d = i) (demes g) of
        None \<Rightarrow> Inl (KeyError i)
      | Some d \<Rightarrow> Inr d)"

text \<open>
  Lines 180 to 189: the body of the loop over \<open>deme.ancestors\<close>. The helper
  \<open>utils.size_of_deme_at_time\<close> is the parameter \<open>size_of_deme_at_time\<close>.
\<close>

definition ancestor_body ::
  "(deme \<Rightarrow> ftime \<Rightarrow> error + real) \<Rightarrow> graph \<Rightarrow> cmap \<Rightarrow> nat \<Rightarrow> deme \<Rightarrow> string \<Rightarrow> run" where
  "ancestor_body size_of_deme_at_time g cm j d ancestor_id =
     (case lookup_deme g ancestor_id of
        Inl err \<Rightarrow> ([], Some err)
      | Inr anc \<Rightarrow>
          (case size_of_deme_at_time anc (deme_start_time d) of
             Inl err \<Rightarrow> ([], Some err)
           | Inr anc_N \<Rightarrow>
               (case epochs d of
                  [] \<Rightarrow> ([], Some IndexError)
                | e0 # _ \<Rightarrow>
                    if anc_N \<noteq> start_size e0
                    then ([Plot [deme_start_time d, deme_start_time d]
                                [Real anc_N, Real (start_size e0)]
                                (discontinuity_kwargs g cm j)], None)
                    else ([], None))))"

text \<open>Lines 76 to 189: the body of the loop over \<open>enumerate(graph.demes)\<close>.\<close>

definition deme_body ::
  "(deme \<Rightarrow> ftime \<Rightarrow> error + real) \<Rightarrow> graph \<Rightarrow> options \<Rightarrow> real \<Rightarrow> cmap \<Rightarrow>
     nat \<times> deme \<Rightarrow> run" where
  "deme_body size_of_deme_at_time g opts ist cm jd =
     (case jd of (j, d) \<Rightarrow>
        and_then (for_loop (epoch_body g opts ist cm j d) (List.enumerate 0 (epochs d)))
          (and_then (infinity_arrow g opts ist cm j d)
             (for_loop (ancestor_body size_of_deme_at_time g cm j d) (ancestors d))))"

text \<open>Lines 191 to 221: the legend, the title and the axes.\<close>

definition finish_axes :: "graph \<Rightarrow> options \<Rightarrow> real \<Rightarrow> cmap \<Rightarrow> call list" where
  "finish_axes g opts ist cm =
     (if length (demes g) > 1
      then [Legend (map (\<lambda>(j, d). plot_kwargs g cm j d) (List.enumerate 0 (demes g)))
              (length (demes g) div 2) (z_top g)]
      else []) @
     (case title opts of None \<Rightarrow> [] | Some t \<Rightarrow> [SetTitle t]) @
     [SetXlim (if log_x opts then 1 else 0) ist, SpineHide ''top''] @
     (if invert_x opts then [SpineHide ''left'', InvertXaxis, YTickRight, YLabelRight]
      else [SpineHide ''right'']) @
     [SetXlabel (''time ago ('' @ time_units g @ '')''),
      SetYlabel (''deme'' @ [CHR 0x0A] @ ''size'')] @
     (if log_x opts then [SetXscaleLog] else []) @
     (if log_y opts then [SetYscaleLog] else []) @
     [TightLayout]"

text \<open>Lines 58 to 222: the calls of \<open>size_history\<close> on its axes.\<close>

definition size_history_calls ::
  "(deme \<Rightarrow> ftime \<Rightarrow> error + real) \<Rightarrow> graph \<Rightarrow> options \<Rightarrow> run" where
  "size_history_calls size_of_deme_at_time g opts =
     (case choose_cmap (cmap opts) (length (demes g)) of
        Inl err \<Rightarrow> ([], Some err)
      | Inr cm \<Rightarrow>
          (case inf_start_time g (inf_ratio opts) (log_x opts) of
             Inl err \<Rightarrow> ([], Some err)
           | Inr ist \<Rightarrow>
               and_then
                 (for_loop (deme_body size_of_deme_at_time g opts ist cm)
                    (List.enumerate 0 (demes g)))
                 (finish_axes g opts ist cm, None)))"

text \<open>
  \<open>size_history\<close>: the axes are the calls they have received; with no axes given, new
  ones are made. The result is the axes after the run and the exception, if one was raised.
\<close>

definition size_history ::
  "(deme \<Rightarrow> ftime \<Rightarrow> error + real) \<Rightarrow> graph \<Rightarrow> call list option \<Rightarrow> options \<Rightarrow> run" where
  "size_history size_of_deme_at_time g ax opts =
     (case size_history_calls size_of_deme_at_time g opts of
        (cs, r) \<Rightarrow> ((case ax of None \<Rightarrow> [] | Some a \<Rightarrow> a) @ cs, r))"

section \<open>The horizon as the specification words it\<close>

text \<open>
  The times the specification collects: over all demes, the end time of the first epoch
  and, when it is finite, the start time of the first epoch.
\<close>

definition first_epoch_times :: "graph \<Rightarrow> real set" where
  "first_epoch_times g =
     (\<Union>d \<in> set (demes g).
        {end_time (hd (epochs d))} \<union> {t. start_time (hd (epochs d)) = Finite t})"

definition horizon_spec :: "graph \<Rightarrow> real \<Rightarrow> bool \<Rightarrow> real" where
  "horizon_spec g r log_scale =
     (let T = Max (first_epoch_times g)
      in if T = 0 then 113
         else if log_scale then exp (ln T / (1 - r))
         else T / (1 - r))"

section \<open>Example graphs\<close>

definition root_epoch :: epoch where
  "root_epoch =
     \<lparr>start_time = Inf, end_time = 100, start_size = 1000, end_size = 1000,
      size_function = ''constant''\<rparr>"

definition growth_epoch :: epoch where
  "growth_epoch =
     \<lparr>start_time = Finite 100, end_time = 0, start_size = 1000, end_size = 2000,
      size_function = ''exponential''\<rparr>"

definition example_deme :: deme where
  "example_deme =
     \<lparr>deme_id = ''YRI'', deme_start_time = Inf, epochs = [root_epoch, growth_epoch],
      ancestors = []\<rparr>"

definition example_graph :: graph where
  "example_graph = \<lparr>demes = [example_deme], time_units = ''generations''\<rparr>"

definition empty_graph :: graph where
  "empty_graph = \<lparr>demes = [], time_units = ''generations''\<rparr>"

definition unit_graph :: graph where
  "unit_graph =
     \<lparr>demes = [\<lparr>deme_id = ''A'', deme_start_time = Inf,
                 epochs = [\<lparr>start_time = Inf, end_time = 1, start_size = 1000,
                            end_size = 1000, size_function = ''constant''\<rparr>,
                           \<lparr>start_time = Finite 1, end_time = 0, start_size = 1000,
                            end_size = 1000, size_function = ''constant''\<rparr>],
                 ancestors = []\<rparr>],
      time_units = ''generations''\<rparr>"

definition zero_start_epoch :: epoch where
  "zero_start_epoch =
     \<lparr>start_time = Finite 100, end_time = 0, start_size = 0, end_size = 2000,
      size_function = ''exponential''\<rparr>"

definition jump_epoch :: epoch where
  "jump_epoch =
     \<lparr>start_time = Finite 100, end_time = 0, start_size = 3000, end_size = 3000,
      size_function = ''constant''\<rparr>"

definition jump_deme :: deme where
  "jump_deme =
     \<lparr>deme_id = ''YRI'', deme_start_time = Inf, epochs = [root_epoch, jump_epoch],
      ancestors = []\<rparr>"

definition jump_graph :: graph where
  "jump_graph = \<lparr>demes = [jump_deme], time_units = ''generations''\<rparr>"

definition logistic_epoch :: epoch where
  "logistic_epoch =
     \<lparr>start_time = Finite 100, end_time = 0, start_size = 1000, end_size = 2000,
      size_function = ''logistic''\<rparr>"

definition logistic_deme :: deme where
  "logistic_deme =
     \<lparr>deme_id = ''YRI'', deme_start_time = Inf, epochs = [root_epoch, logistic_epoch],
      ancestors = []\<rparr>"

definition logistic_graph :: graph where
  "logistic_graph = \<lparr>demes = [logistic_deme], time_units = ''generations''\<rparr>"

definition negative_epoch :: epoch where
  "negative_epoch =
     \<lparr>start_time = Finite 100, end_time = 0, start_size = - 1000, end_size = - 2000,
      size_function = ''exponential''\<rparr>"

definition zero_end_epoch :: epoch where
  "zero_end_epoch =
     \<lparr>start_time = Finite 100, end_time = 0, start_size = 1000, end_size = 0,
      size_function = ''exponential''\<rparr>"

definition many_demes_graph :: graph where
  "many_demes_graph = \<lparr>demes = replicate 25 example_deme, time_units = ''generations''\<rparr>"

definition no_ancestor_size :: "deme \<Rightarrow> ftime \<Rightarrow> error + real" where
  "no_ancestor_size d t = Inl (ValueError ''no ancestor'')"

definition two_point_options :: options where
  "two_point_options =
     \<lparr>inf_ratio = 1 / 10, inf_label = False, invert_x = False, num_exp_points = 2,
      annotate_epochs = False, cmap = None, log_x = False, log_y = False, title = None\<rparr>"

definition log_x_options :: options where
  "log_x_options =
     \<lparr>inf_ratio = 1 / 10, inf_label = False, invert_x = False, num_exp_points = 100,
      annotate_epochs = False, cmap = None, log_x = True, log_y = False, title = None\<rparr>"

definition negative_root_epoch :: epoch where
  "negative_root_epoch =
     \<lparr>start_time = Inf, end_time = 100, start_size = - 1000, end_size = - 1000,
      size_function = ''constant''\<rparr>"

definition negative_deme :: deme where
  "negative_deme =
     \<lparr>deme_id = ''YRI'', deme_start_time = Inf,
      epochs = [negative_root_epoch, negative_epoch], ancestors = []\<rparr>"

definition negative_graph :: graph where
  "negative_graph = \<lparr>demes = [negative_deme], time_units = ''generations''\<rparr>"

definition dozen_demes_graph :: graph where
  "dozen_demes_graph = \<lparr>demes = replicate 12 example_deme, time_units = ''generations''\<rparr>"

section \<open>The invariant of the dotted lines\<close>

text \<open>
  Every dotted line that is plotted connects two different sizes. This is used to show
  that no dotted line is drawn between equal sizes.
\<close>

definition dotted_jump :: "call \<Rightarrow> bool" where
  "dotted_jump c =
     (\<forall>xs ys kw. c = Plot xs ys kw \<and> linestyle kw = '':'' \<longrightarrow>
        (\<exists>a b. ys = [Real a, Real b] \<and> a \<noteq> b))"

section \<open>Properties of inf\_start\_time\<close>

lemma epoch0_times_set:
  "\<forall>d \<in> set ds. epochs d \<noteq> [] \<Longrightarrow>
   \<exists>ts. epoch0_times ds = Inr ts \<and>
        set ts = (\<Union>d \<in> set ds.
                    {end_time (hd (epochs d))} \<union> {t. start_time (hd (epochs d)) = Finite t})"
proof (induction ds)
  case Nil
  then show ?case by simp
next
  case (Cons d ds)
  then obtain ts where ts: "epoch0_times ds = Inr ts"
    "set ts = (\<Union>d \<in> set ds.
                 {end_time (hd (epochs d))} \<union> {t. start_time (hd (epochs d)) = Finite t})"
    by auto
  from Cons.prems obtain e0 es where e: "epochs d = e0 # es"
    by (cases "epochs d") auto
  show ?case
    using ts e by (cases "start_time e0") auto
qed

lemma epoch0_times_nonempty:
  "epoch0_times ds = Inr ts \<Longrightarrow> ds \<noteq> [] \<Longrightarrow> ts \<noteq> []"
  by (cases ds) (auto split: list.splits sum.splits)

lemma py_max_Max: "ts \<noteq> [] \<Longrightarrow> py_max ts = Inr (Max (set ts))"
  by (cases ts) (simp_all add: Max.set_eq_fold [symmetric])

lemma oldest_noninf_time_Max:
  assumes "demes g \<noteq> []" "\<forall>d \<in> set (demes g). epochs d \<noteq> []"
  shows "oldest_noninf_time g = Inr (Max (first_epoch_times g))"
proof -
  from epoch0_times_set [OF assms(2)] obtain ts where
    ts: "epoch0_times (demes g) = Inr ts" "set ts = first_epoch_times g"
    by (auto simp: first_epoch_times_def)
  from ts(1) assms(1) have "ts \<noteq> []" by (rule epoch0_times_nonempty)
  then show ?thesis using ts by (simp add: oldest_noninf_time_def py_max_Max)
qed

lemma first_epoch_times_finite: "finite (first_epoch_times g)"
proof -
  have "finite {t. start_time e = Finite t}" for e :: epoch
    by (cases "start_time e") auto
  then show ?thesis by (simp add: first_epoch_times_def)
qed

lemma Max_first_epoch_times_nonneg:
  assumes "demes g \<noteq> []" "\<forall>d \<in> set (demes g). 0 \<le> end_time (hd (epochs d))"
  shows "0 \<le> Max (first_epoch_times g)"
proof -
  from assms(1) obtain d where d: "d \<in> set (demes g)" by (cases "demes g") auto
  then have "end_time (hd (epochs d)) \<in> first_epoch_times g"
    by (auto simp: first_epoch_times_def)
  then have "end_time (hd (epochs d)) \<le> Max (first_epoch_times g)"
    by (simp add: first_epoch_times_finite)
  with assms(2) d show ?thesis by force
qed

lemma inf_start_time_horizon:
  assumes "demes g \<noteq> []" "\<forall>d \<in> set (demes g). epochs d \<noteq> []"
    and "\<forall>d \<in> set (demes g). 0 \<le> end_time (hd (epochs d))"
    and "r \<noteq> 1"
  shows "inf_start_time g r log_scale = Inr (horizon_spec g r log_scale)"
proof -
  have T: "oldest_noninf_time g = Inr (Max (first_epoch_times g))"
    using assms(1,2) by (rule oldest_noninf_time_Max)
  have "0 \<le> Max (first_epoch_times g)"
    using assms(1,3) by (rule Max_first_epoch_times_nonneg)
  then show ?thesis
    using T assms(4)
    by (simp add: inf_start_time_def horizon_spec_def np_log_def py_div_def Let_def)
qed


text \<open>
  C1. For a graph with at least one deme (each deme with its first epoch, end times not
  negative, as in every \<open>demes.Graph\<close>) and a ratio other than 1, \<open>inf_start_time\<close>
  returns what the specification says: with \<open>T\<close> the maximum of the first-epoch end times
  and the finite first-epoch start times, 113 when \<open>T = 0\<close>, \<open>T / (1 - inf_ratio)\<close> on
  a linear axis and \<open>exp (ln T / (1 - inf_ratio))\<close> on a logarithmic one.
\<close>

theorem inf_start_time_spec:
  assumes "demes g \<noteq> []" "\<forall>d \<in> set (demes g). epochs d \<noteq> []"
    and "\<forall>d \<in> set (demes g). 0 \<le> end_time (hd (epochs d))"
    and "r \<noteq> 1"
  shows "inf_start_time g r log_scale = Inr (horizon_spec g r log_scale)"
  using assms by (rule inf_start_time_horizon)

lemma first_epoch_times_example: "first_epoch_times example_graph = {100}"
  by (simp add: first_epoch_times_def example_graph_def example_deme_def root_epoch_def)

theorem inf_start_time_spec_witness:
  "horizon_spec example_graph (1 / 2) False = 200 \<and>
   inf_start_time example_graph (1 / 2) False = Inr 200 \<and>
   inf_start_time example_graph (1 / 2) True = Inr (exp (ln 100 / (1 / 2)))"
proof -
  have h: "horizon_spec example_graph (1 / 2) False = 200"
    "horizon_spec example_graph (1 / 2) True = exp (ln 100 / (1 / 2))"
    by (simp_all add: horizon_spec_def first_epoch_times_example)
  have g: "demes example_graph \<noteq> []" "\<forall>d \<in> set (demes example_graph). epochs d \<noteq> []"
    "\<forall>d \<in> set (demes example_graph). 0 \<le> end_time (hd (epochs d))"
    by (simp_all add: example_graph_def example_deme_def root_epoch_def)
  have r: "(1 / 2 :: real) \<noteq> 1" by simp
  show ?thesis
    using inf_start_time_spec [OF g r, of False] inf_start_time_spec [OF g r, of True] h
    by simp
qed

lemma inf_start_time_empty:
  "demes g = [] \<Longrightarrow>
   inf_start_time g r ls = Inl (ValueError ''max() arg is an empty sequence'')"
  by (simp add: inf_start_time_def oldest_noninf_time_def)

lemma inf_start_time_linear:
  "oldest_noninf_time g = Inr T \<Longrightarrow> T \<noteq> 0 \<Longrightarrow> r \<noteq> 1 \<Longrightarrow>
   inf_start_time g r False = Inr (T / (1 - r))"
  by (simp add: inf_start_time_def py_div_def)

lemma inf_start_time_log:
  "oldest_noninf_time g = Inr T \<Longrightarrow> 0 < T \<Longrightarrow> r \<noteq> 1 \<Longrightarrow>
   inf_start_time g r True = Inr (exp (ln T / (1 - r)))"
  by (simp add: inf_start_time_def np_log_def)

lemma scale_up:
  fixes T r :: real
  assumes "0 < T" "0 < r" "r < 1"
  shows "T < T / (1 - r)"
  using assms by (simp add: field_simps)

lemma scale_mono:
  fixes T r r' :: real
  assumes "0 < T" "r < r'" "r' < 1"
  shows "T / (1 - r) < T / (1 - r')"
  using assms by (simp add: frac_less2)

lemma scale_down:
  fixes L r :: real
  assumes "L < 0" "0 < r" "r < 1"
  shows "L / (1 - r) < L"
  using scale_up [of "- L" r] assms by simp

lemma scale_anti:
  fixes L r r' :: real
  assumes "L < 0" "r < r'" "r' < 1"
  shows "L / (1 - r') < L / (1 - r)"
  using scale_mono [of "- L" r r'] assms by simp

text \<open>
  C2, as amended. Let \<open>T\<close> be the maximum that \<open>inf_start_time\<close> computes, positive,
  and let \<open>0 < r < r' < 1\<close>. On a linear axis the result is greater than \<open>T\<close> and
  grows with the ratio. On a logarithmic axis that holds when \<open>1 < T\<close>; for \<open>T = 1\<close> the
  result is \<open>T\<close> for every ratio, and for \<open>T < 1\<close> it is less than \<open>T\<close> and falls as
  the ratio grows.
\<close>

theorem inf_start_time_exceeds:
  assumes T: "oldest_noninf_time g = Inr T" "0 < T"
    and r: "0 < r" "r < r'" "r' < 1"
  shows "(\<exists>v v'. inf_start_time g r False = Inr v \<and> inf_start_time g r' False = Inr v' \<and>
                  T < v \<and> v < v') \<and>
         (\<exists>v v'. inf_start_time g r True = Inr v \<and> inf_start_time g r' True = Inr v' \<and>
                  (1 < T \<longrightarrow> T < v \<and> v < v') \<and>
                  (T = 1 \<longrightarrow> v = T \<and> v' = T) \<and>
                  (T < 1 \<longrightarrow> v' < v \<and> v < T))"
proof -
  from r have r1: "r \<noteq> 1" "r' \<noteq> 1" "r < 1" by simp_all
  from T have T0: "T \<noteq> 0" by simp
  have lin: "inf_start_time g r False = Inr (T / (1 - r))"
    "inf_start_time g r' False = Inr (T / (1 - r'))"
    using T(1) T0 r1 by (simp_all add: inf_start_time_linear)
  have "T < T / (1 - r)" using T(2) r(1) r1(3) by (rule scale_up)
  moreover have "T / (1 - r) < T / (1 - r')" using T(2) r(2,3) by (rule scale_mono)
  ultimately have A: "\<exists>v v'. inf_start_time g r False = Inr v \<and>
      inf_start_time g r' False = Inr v' \<and> T < v \<and> v < v'"
    using lin by simp
  have lg: "inf_start_time g r True = Inr (exp (ln T / (1 - r)))"
    "inf_start_time g r' True = Inr (exp (ln T / (1 - r')))"
    using T r1 by (simp_all add: inf_start_time_log)
  have eT: "exp (ln T) = T" using T(2) by simp
  have B1: "T < exp (ln T / (1 - r)) \<and> exp (ln T / (1 - r)) < exp (ln T / (1 - r'))"
    if "1 < T"
  proof -
    from that have L: "0 < ln T" by simp
    have "ln T < ln T / (1 - r)" using L r(1) r1(3) by (rule scale_up)
    then have "exp (ln T) < exp (ln T / (1 - r))" by simp
    moreover have "ln T / (1 - r) < ln T / (1 - r')" using L r(2,3) by (rule scale_mono)
    ultimately show ?thesis using eT by simp
  qed
  have B2: "exp (ln T / (1 - r)) = T \<and> exp (ln T / (1 - r')) = T" if "T = 1"
    using that by simp
  have B3: "exp (ln T / (1 - r')) < exp (ln T / (1 - r)) \<and> exp (ln T / (1 - r)) < T"
    if "T < 1"
  proof -
    from that T(2) have L: "ln T < 0" by simp
    have "ln T / (1 - r) < ln T" using L r(1) r1(3) by (rule scale_down)
    then have "exp (ln T / (1 - r)) < exp (ln T)" by simp
    moreover have "ln T / (1 - r') < ln T / (1 - r)" using L r(2,3) by (rule scale_anti)
    ultimately show ?thesis using eT by simp
  qed
  have B: "\<exists>v v'. inf_start_time g r True = Inr v \<and> inf_start_time g r' True = Inr v' \<and>
      (1 < T \<longrightarrow> T < v \<and> v < v') \<and> (T = 1 \<longrightarrow> v = T \<and> v' = T) \<and>
      (T < 1 \<longrightarrow> v' < v \<and> v < T)"
    using lg B1 B2 B3 by simp
  from A B show ?thesis by (rule conjI)
qed

lemma oldest_unit: "oldest_noninf_time unit_graph = Inr 1"
  by (simp add: oldest_noninf_time_def unit_graph_def)

text \<open>
  The claim C2 as it is written fails on a logarithmic axis: for a deme whose first epoch
  ends at time 1, \<open>T = 1\<close> and the result with ratio 1/2 is 1, not more than \<open>T\<close>.
\<close>

theorem inf_start_time_log_unit_counterexample:
  "oldest_noninf_time unit_graph = Inr 1 \<and> inf_start_time unit_graph (1 / 2) True = Inr 1"
  by (simp add: inf_start_time_def oldest_unit np_log_def)

lemma oldest_example: "oldest_noninf_time example_graph = Inr 100"
  by (simp add: oldest_noninf_time_def example_graph_def example_deme_def root_epoch_def)

theorem inf_start_time_exceeds_witness:
  "(\<exists>v v'. inf_start_time example_graph (1 / 10) False = Inr v \<and>
            inf_start_time example_graph (1 / 2) False = Inr v' \<and> 100 < v \<and> v < v') \<and>
   (\<exists>v v'. inf_start_time example_graph (1 / 10) True = Inr v \<and>
            inf_start_time example_graph (1 / 2) True = Inr v' \<and> 100 < v \<and> v < v')"
  using inf_start_time_exceeds [OF oldest_example, of "1 / 10" "1 / 2"] by simp

text \<open>
  C10. On a graph with no deme \<open>inf_start_time\<close> fails: \<open>max\<close> of the empty list raises
  ValueError. On a graph with at least one deme (each with its first epoch) the maximum
  exists, and for a ratio other than 1 and end times that are not negative a value is
  returned.
\<close>

theorem inf_start_time_needs_a_deme:
  "(demes g = [] \<longrightarrow>
      oldest_noninf_time g = Inl (ValueError ''max() arg is an empty sequence'') \<and>
      inf_start_time g r ls = Inl (ValueError ''max() arg is an empty sequence'')) \<and>
   (demes g \<noteq> [] \<and> (\<forall>d \<in> set (demes g). epochs d \<noteq> []) \<longrightarrow>
      oldest_noninf_time g = Inr (Max (first_epoch_times g)) \<and>
      (r \<noteq> 1 \<and> (\<forall>d \<in> set (demes g). 0 \<le> end_time (hd (epochs d))) \<longrightarrow>
         (\<exists>v. inf_start_time g r ls = Inr v)))"
proof (intro conjI impI)
  assume "demes g = []"
  then show "oldest_noninf_time g = Inl (ValueError ''max() arg is an empty sequence'')"
    by (simp add: oldest_noninf_time_def)
next
  assume "demes g = []"
  then show "inf_start_time g r ls = Inl (ValueError ''max() arg is an empty sequence'')"
    by (rule inf_start_time_empty)
next
  assume "demes g \<noteq> [] \<and> (\<forall>d \<in> set (demes g). epochs d \<noteq> [])"
  then show "oldest_noninf_time g = Inr (Max (first_epoch_times g))"
    by (simp add: oldest_noninf_time_Max)
next
  assume a: "demes g \<noteq> [] \<and> (\<forall>d \<in> set (demes g). epochs d \<noteq> [])"
    and b: "r \<noteq> 1 \<and> (\<forall>d \<in> set (demes g). 0 \<le> end_time (hd (epochs d)))"
  then have "inf_start_time g r ls = Inr (horizon_spec g r ls)"
    by (simp add: inf_start_time_horizon)
  then show "\<exists>v. inf_start_time g r ls = Inr v" ..
qed

theorem inf_start_time_needs_a_deme_witness:
  "inf_start_time empty_graph (1 / 10) False =
     Inl (ValueError ''max() arg is an empty sequence'') \<and>
   oldest_noninf_time example_graph = Inr 100 \<and>
   (\<exists>v. inf_start_time example_graph (1 / 10) False = Inr v)"
proof -
  have e: "demes empty_graph = []"
    by (simp add: empty_graph_def)
  have g: "demes example_graph \<noteq> [] \<and> (\<forall>d \<in> set (demes example_graph). epochs d \<noteq> [])"
    "(1 / 10 :: real) \<noteq> 1 \<and>
     (\<forall>d \<in> set (demes example_graph). 0 \<le> end_time (hd (epochs d)))"
    by (simp_all add: example_graph_def example_deme_def root_epoch_def)
  show ?thesis
    using inf_start_time_needs_a_deme [of empty_graph "1 / 10" False]
      inf_start_time_needs_a_deme [of example_graph "1 / 10" False] e g
    by (simp add: first_epoch_times_example)
qed

section \<open>Properties of the coordinates of an epoch\<close>

lemma linspace_samples:
  assumes "0 \<le> n"
  shows "\<exists>xs. linspace a b n = Inr xs \<and> int (length xs) = n \<and>
              (\<forall>i < length xs. xs ! i = a + real i * ((b - a) / real (nat n - 1)))"
  using assms by (auto simp: linspace_def)

lemma linspace_ends:
  assumes "2 \<le> n" "linspace a b n = Inr xs"
  shows "hd xs = a \<and> last xs = b"
proof -
  define m where "m = nat n - 2"
  have m: "nat n = Suc (Suc m)"
    using assms(1) by (simp add: m_def)
  have n1: "n \<noteq> 1" "\<not> n < 0"
    using assms(1) by simp_all
  let ?f = "\<lambda>i. a + real i * ((b - a) / real (Suc m))"
  have xs: "xs = map ?f [0..<Suc (Suc m)]"
    using assms(2) n1 m by (simp add: linspace_def)
  have front: "[0..<Suc (Suc m)] = 0 # [Suc 0..<Suc (Suc m)]"
    by (rule upt_conv_Cons) simp
  have rear: "[0..<Suc (Suc m)] = [0..<Suc m] @ [Suc m]"
    by simp
  have "hd xs = ?f 0"
    unfolding xs front by simp
  moreover have "last xs = ?f (Suc m)"
    unfolding xs rear by simp
  moreover have "real (Suc m) * ((b - a) / real (Suc m)) = b - a"
    by simp
  ultimately show ?thesis by simp
qed

lemma linspace_first:
  assumes "1 \<le> n" "linspace a b n = Inr xs"
  shows "xs \<noteq> [] \<and> hd xs = a"
proof (cases "n = 1")
  case True
  with assms(2) show ?thesis by (auto simp: linspace_def)
next
  case False
  with assms(1) have n: "2 \<le> n" by simp
  from linspace_samples [of n a b] assms n have "xs \<noteq> []" by auto
  with linspace_ends [OF n assms(2)] show ?thesis by simp
qed

lemma exp_rate_nonzero:
  "start_size e \<noteq> 0 \<Longrightarrow> exp_rate e = Inr (np_log (end_size e / start_size e))"
  by (simp add: exp_rate_def py_div_def)

lemma exp_rate_zero: "start_size e = 0 \<Longrightarrow> exp_rate e = Inl ZeroDivisionError"
  by (simp add: exp_rate_def py_div_def)

lemma np_log_pos: "0 < q \<Longrightarrow> np_log q = Real (ln q)"
  by (simp add: np_log_def)

lemma exp_size_Real: "exp_size e (Real l) dt = Real (exp (l * dt) * start_size e)"
  by (simp add: exp_size_def)

lemma exp_size_not_Real: "\<forall>l. r \<noteq> Real l \<Longrightarrow> exp_size e r 0 = NaN"
  by (cases r) (simp_all add: exp_size_def)

lemma exp_size_ends:
  assumes "0 < start_size e" "0 < end_size e"
  shows "exp_size e (Real (ln (end_size e / start_size e))) 0 = Real (start_size e)"
    and "exp_size e (Real (ln (end_size e / start_size e))) 1 = Real (end_size e)"
  using assms by (simp_all add: exp_size_Real)

lemma epoch_coords_exponential:
  assumes "size_function e = ''exponential''" "0 \<le> n" "start_size e \<noteq> 0"
  shows "\<exists>x dt. linspace (plot_start_time ist e) (plot_end_time lx e) n = Inr x \<and>
               linspace 0 1 n = Inr dt \<and>
               epoch_coords ist lx n k e =
                 Inr (x, map (exp_size e (np_log (end_size e / start_size e))) dt)"
proof -
  from linspace_samples [OF assms(2)] obtain x where
    x: "linspace (plot_start_time ist e) (plot_end_time lx e) n = Inr x" by blast
  from linspace_samples [OF assms(2)] obtain dt where
    dt: "linspace 0 1 n = Inr dt" by blast
  show ?thesis
    using x dt assms(1) exp_rate_nonzero [OF assms(3)] by (simp add: epoch_coords_def)
qed

text \<open>
  C6. For an exponential epoch with positive start and end sizes the rate is
  \<open>ln (end_size / start_size)\<close>, and the curve \<open>start_size * exp (rate * dt)\<close> is the
  start size at \<open>dt = 0\<close> and the end size at \<open>dt = 1\<close>; with at least two samples
  these are the first and the last size plotted.
\<close>

theorem exponential_curve_endpoints:
  assumes "0 < start_size e" "0 < end_size e"
  shows "\<exists>r. exp_rate e = Inr r \<and> r = Real (ln (end_size e / start_size e)) \<and>
             exp_size e r 0 = Real (start_size e) \<and> exp_size e r 1 = Real (end_size e) \<and>
             (size_function e = ''exponential'' \<and> 2 \<le> n \<longrightarrow>
               (\<exists>x y. epoch_coords ist lx n k e = Inr (x, y) \<and>
                      hd y = Real (start_size e) \<and> last y = Real (end_size e)))"
proof -
  let ?r = "Real (ln (end_size e / start_size e))"
  from assms have q: "0 < end_size e / start_size e" and s: "start_size e \<noteq> 0"
    by simp_all
  have r: "exp_rate e = Inr ?r"
    using exp_rate_nonzero [OF s] np_log_pos [OF q] by simp
  have "\<exists>x y. epoch_coords ist lx n k e = Inr (x, y) \<and>
      hd y = Real (start_size e) \<and> last y = Real (end_size e)"
    if sf: "size_function e = ''exponential''" and n: "2 \<le> n"
  proof -
    from n have n0: "0 \<le> n" by simp
    from epoch_coords_exponential [OF sf n0 s, of ist lx k] np_log_pos [OF q] obtain x dt where
      dt: "linspace 0 1 n = Inr dt"
      and c: "epoch_coords ist lx n k e = Inr (x, map (exp_size e ?r) dt)"
      by auto
    from linspace_ends [OF n dt] have ends: "hd dt = 0" "last dt = 1" by simp_all
    from linspace_samples [OF n0, of 0 1] dt n have "dt \<noteq> []" by auto
    then have "hd (map (exp_size e ?r) dt) = Real (start_size e)"
      "last (map (exp_size e ?r) dt) = Real (end_size e)"
      using ends exp_size_ends [OF assms] by (simp_all add: hd_map last_map)
    with c show ?thesis by blast
  qed
  then show ?thesis
    using r exp_size_ends [OF assms] by blast
qed

theorem exponential_curve_endpoints_witness:
  "exp_rate growth_epoch = Inr (Real (ln 2)) \<and>
   exp_size growth_epoch (Real (ln 2)) 0 = Real 1000 \<and>
   exp_size growth_epoch (Real (ln 2)) 1 = Real 2000 \<and>
   (\<exists>x y. epoch_coords 200 False 100 1 growth_epoch = Inr (x, y) \<and>
          hd y = Real 1000 \<and> last y = Real 2000)"
  using exponential_curve_endpoints [where e = growth_epoch and n = 100 and ist = 200
      and lx = False and k = 1]
  by (simp add: growth_epoch_def)

section \<open>Properties of the loops\<close>

lemma and_then_None: "and_then (cs, None) b = (cs @ fst b, snd b)"
  by (simp add: and_then_def)

lemma and_then_Some: "and_then (cs, Some err) b = (cs, Some err)"
  by (simp add: and_then_def)

lemma and_then_Nil: "and_then ([], None) b = b"
  by (simp add: and_then_def)

lemma and_then_assoc: "and_then (and_then a b) c = and_then a (and_then b c)"
  by (cases a; cases b) (auto simp: and_then_def split: option.splits)

lemma for_loop_append:
  "for_loop body (xs @ ys) = and_then (for_loop body xs) (for_loop body ys)"
  by (induction xs) (simp_all add: and_then_Nil and_then_assoc)

lemma and_then_completes:
  assumes "snd (and_then a b) = None"
  shows "snd a = None \<and> snd b = None \<and> fst (and_then a b) = fst a @ fst b"
  using assms by (cases a; cases b) (auto simp: and_then_def split: option.splits)

lemma and_then_calls: "set (fst (and_then a b)) \<subseteq> set (fst a) \<union> set (fst b)"
  by (cases a; cases b) (auto simp: and_then_def split: option.splits)

lemma for_loop_completes:
  "snd (for_loop body xs) = None \<Longrightarrow> x \<in> set xs \<Longrightarrow>
   snd (body x) = None \<and> set (fst (body x)) \<subseteq> set (fst (for_loop body xs))"
proof (induction xs)
  case Nil
  then show ?case by simp
next
  case (Cons y ys)
  from Cons.prems(1) have a: "snd (and_then (body y) (for_loop body ys)) = None" by simp
  from and_then_completes [OF a] have
    y: "snd (body y) = None" and ys: "snd (for_loop body ys) = None"
    and cs: "fst (for_loop body (y # ys)) = fst (body y) @ fst (for_loop body ys)"
    by simp_all
  show ?case
  proof (cases "x = y")
    case True
    with y cs show ?thesis by simp
  next
    case False
    with Cons.prems(2) have "x \<in> set ys" by simp
    with ys have "snd (body x) = None \<and> set (fst (body x)) \<subseteq> set (fst (for_loop body ys))"
      by (rule Cons.IH)
    with cs show ?thesis by auto
  qed
qed

lemma for_loop_calls:
  "\<forall>x \<in> set xs. \<forall>c \<in> set (fst (body x)). P c \<Longrightarrow>
   \<forall>c \<in> set (fst (for_loop body xs)). P c"
proof (induction xs)
  case Nil
  then show ?case by simp
next
  case (Cons y ys)
  have "set (fst (for_loop body (y # ys))) \<subseteq> set (fst (body y)) \<union> set (fst (for_loop body ys))"
    using and_then_calls [of "body y" "for_loop body ys"] by simp
  moreover have "\<forall>c \<in> set (fst (body y)). P c" using Cons.prems by simp
  moreover have "\<forall>c \<in> set (fst (for_loop body ys)). P c"
    using Cons.IH Cons.prems by simp
  ultimately show ?case by blast
qed

lemma for_loop_raises:
  assumes "for_loop body xs = (cs, None)" "body x = (cs', Some err)"
  shows "for_loop body (xs @ x # ys) = (cs @ cs', Some err)"
  using assms by (simp add: for_loop_append and_then_None and_then_Some)

lemma enumerate_nth: "k < length xs \<Longrightarrow> (k, xs ! k) \<in> set (List.enumerate 0 xs)"
  by (simp add: in_set_enumerate_eq)

lemma epoch_body_plot:
  assumes "epoch_coords ist (log_x opts) (num_exp_points opts) k e = Inr (x, y)"
  shows "\<exists>rest. epoch_body g opts ist cm j d (k, e) =
           (Plot (map Finite x) y (plot_kwargs g cm j d) # rest, None)"
  using assms by (simp add: epoch_body_def)

lemma epoch_body_raises:
  assumes "epoch_coords ist (log_x opts) (num_exp_points opts) k e = Inl err"
  shows "epoch_body g opts ist cm j d (k, e) = ([], Some err)"
  using assms by (simp add: epoch_body_def)

lemma epoch_body_unknown:
  assumes "size_function e \<noteq> ''constant''" "size_function e \<noteq> ''exponential''"
  shows "epoch_body g opts ist cm j d (k, e) =
         ([], Some (unknown_size_function k (size_function e)))"
  using assms by (simp add: epoch_body_def epoch_coords_def)

lemma size_history_deme_calls:
  assumes run: "size_history_calls sz g opts = (cs, None)"
    and cm: "choose_cmap (cmap opts) (length (demes g)) = Inr cm"
    and ist: "inf_start_time g (inf_ratio opts) (log_x opts) = Inr ist"
    and j: "j < length (demes g)"
  shows "snd (deme_body sz g opts ist cm (j, demes g ! j)) = None \<and>
         set (fst (deme_body sz g opts ist cm (j, demes g ! j))) \<subseteq> set cs"
proof -
  let ?loop = "for_loop (deme_body sz g opts ist cm) (List.enumerate 0 (demes g))"
  from run cm ist have "snd (and_then ?loop (finish_axes g opts ist cm, None)) = None"
    and cs: "cs = fst (and_then ?loop (finish_axes g opts ist cm, None))"
    by (simp_all add: size_history_calls_def)
  from and_then_completes [OF this(1)] cs have
    l: "snd ?loop = None" and "cs = fst ?loop @ finish_axes g opts ist cm"
    by simp_all
  then have "set (fst ?loop) \<subseteq> set cs" by auto
  with for_loop_completes [OF l enumerate_nth [OF j]] show ?thesis by blast
qed

lemma size_history_epoch_calls:
  assumes run: "size_history_calls sz g opts = (cs, None)"
    and cm: "choose_cmap (cmap opts) (length (demes g)) = Inr cm"
    and ist: "inf_start_time g (inf_ratio opts) (log_x opts) = Inr ist"
    and j: "j < length (demes g)" and k: "k < length (epochs (demes g ! j))"
  shows "snd (epoch_body g opts ist cm j (demes g ! j) (k, epochs (demes g ! j) ! k)) = None \<and>
         set (fst (epoch_body g opts ist cm j (demes g ! j) (k, epochs (demes g ! j) ! k)))
           \<subseteq> set cs"
proof -
  let ?d = "demes g ! j"
  let ?loop = "for_loop (epoch_body g opts ist cm j ?d) (List.enumerate 0 (epochs ?d))"
  let ?after = "and_then (infinity_arrow g opts ist cm j ?d)
      (for_loop (ancestor_body sz g cm j ?d) (ancestors ?d))"
  from size_history_deme_calls [OF run cm ist j] have
    d: "snd (deme_body sz g opts ist cm (j, ?d)) = None"
    and sub: "set (fst (deme_body sz g opts ist cm (j, ?d))) \<subseteq> set cs"
    by simp_all
  have eq: "deme_body sz g opts ist cm (j, ?d) = and_then ?loop ?after"
    by (simp add: deme_body_def)
  from d have "snd (and_then ?loop ?after) = None" by (simp add: eq)
  from and_then_completes [OF this] have
    l: "snd ?loop = None" and "fst (and_then ?loop ?after) = fst ?loop @ fst ?after"
    by simp_all
  with sub eq have "set (fst ?loop) \<subseteq> set cs" by auto
  with for_loop_completes [OF l enumerate_nth [OF k]] show ?thesis by blast
qed

lemma epoch_body_dotted: "\<forall>c \<in> set (fst (epoch_body g opts ist cm j d ke)). dotted_jump c"
  by (cases ke)
    (auto simp: epoch_body_def dotted_jump_def plot_kwargs_def discontinuity_kwargs_def
      epoch_annotation_def Let_def split: sum.splits)

lemma infinity_arrow_dotted:
  "\<forall>c \<in> set (fst (infinity_arrow g opts ist cm j d)). dotted_jump c"
  by (auto simp: infinity_arrow_def dotted_jump_def split: list.splits)

lemma ancestor_body_dotted:
  "\<forall>c \<in> set (fst (ancestor_body sz g cm j d a)). dotted_jump c"
  by (auto simp: ancestor_body_def dotted_jump_def split: list.splits sum.splits)

lemma deme_body_dotted: "\<forall>c \<in> set (fst (deme_body sz g opts ist cm jd)). dotted_jump c"
proof -
  obtain j d where jd: "jd = (j, d)" by (cases jd)
  let ?loop = "for_loop (epoch_body g opts ist cm j d) (List.enumerate 0 (epochs d))"
  let ?anc = "for_loop (ancestor_body sz g cm j d) (ancestors d)"
  have 1: "\<forall>c \<in> set (fst ?loop). dotted_jump c"
    by (rule for_loop_calls) (simp add: epoch_body_dotted)
  have 2: "\<forall>c \<in> set (fst ?anc). dotted_jump c"
    by (rule for_loop_calls) (simp add: ancestor_body_dotted)
  have "set (fst (deme_body sz g opts ist cm jd)) \<subseteq>
      set (fst ?loop) \<union> (set (fst (infinity_arrow g opts ist cm j d)) \<union> set (fst ?anc))"
    using and_then_calls [of ?loop "and_then (infinity_arrow g opts ist cm j d) ?anc"]
      and_then_calls [of "infinity_arrow g opts ist cm j d" ?anc]
    by (auto simp: jd deme_body_def)
  with 1 2 infinity_arrow_dotted [of g opts ist cm j d] show ?thesis by blast
qed

lemma finish_axes_dotted: "\<forall>c \<in> set (finish_axes g opts ist cm). dotted_jump c"
  by (auto simp: finish_axes_def dotted_jump_def split: option.splits)

lemma size_history_calls_dotted:
  "\<forall>c \<in> set (fst (size_history_calls sz g opts)). dotted_jump c"
proof (cases "choose_cmap (cmap opts) (length (demes g))")
  case (Inl err)
  then show ?thesis by (simp add: size_history_calls_def)
next
  case (Inr cm)
  show ?thesis
  proof (cases "inf_start_time g (inf_ratio opts) (log_x opts)")
    case (Inl err)
    with Inr show ?thesis by (simp add: size_history_calls_def)
  next
    case ist: (Inr ist)
    let ?loop = "for_loop (deme_body sz g opts ist cm) (List.enumerate 0 (demes g))"
    have "\<forall>c \<in> set (fst ?loop). dotted_jump c"
      by (rule for_loop_calls) (simp add: deme_body_dotted)
    moreover have "set (fst (size_history_calls sz g opts)) \<subseteq>
        set (fst ?loop) \<union> set (finish_axes g opts ist cm)"
      using and_then_calls [of ?loop "(finish_axes g opts ist cm, None)"] Inr ist
      by (simp add: size_history_calls_def)
    ultimately show ?thesis using finish_axes_dotted [of g opts ist cm] by blast
  qed
qed

section \<open>Properties of size\_history\<close>

lemma epoch_body_constant:
  assumes "size_function e = ''constant''"
  shows "\<exists>rest. epoch_body g opts ist cm j d (k, e) =
           (Plot [Finite (plot_start_time ist e), Finite (plot_end_time (log_x opts) e)]
                 [Real (start_size e), Real (end_size e)] (plot_kwargs g cm j d) # rest, None)"
proof -
  have "epoch_coords ist (log_x opts) (num_exp_points opts) k e =
      Inr ([plot_start_time ist e, plot_end_time (log_x opts) e],
           [Real (start_size e), Real (end_size e)])"
    using assms by (simp add: epoch_coords_def)
  from epoch_body_plot [OF this, of g cm j d] show ?thesis by simp
qed

lemma epoch_body_exponential:
  assumes "size_function e = ''exponential''" "0 \<le> num_exp_points opts" "start_size e \<noteq> 0"
  shows "\<exists>x dt rest.
           linspace (plot_start_time ist e) (plot_end_time (log_x opts) e) (num_exp_points opts) =
             Inr x \<and>
           linspace 0 1 (num_exp_points opts) = Inr dt \<and>
           epoch_body g opts ist cm j d (k, e) =
             (Plot (map Finite x) (map (exp_size e (np_log (end_size e / start_size e))) dt)
                (plot_kwargs g cm j d) # rest, None)"
proof -
  from epoch_coords_exponential [OF assms, of ist "log_x opts" k] obtain x dt where
    x: "linspace (plot_start_time ist e) (plot_end_time (log_x opts) e) (num_exp_points opts) =
        Inr x"
    and dt: "linspace 0 1 (num_exp_points opts) = Inr dt"
    and c: "epoch_coords ist (log_x opts) (num_exp_points opts) k e =
        Inr (x, map (exp_size e (np_log (end_size e / start_size e))) dt)"
    by blast
  from epoch_body_plot [OF c, of g cm j d] x dt show ?thesis by blast
qed

lemma epoch_calls_in_run:
  assumes "size_history_calls sz g opts = (cs, None) \<and>
    choose_cmap (cmap opts) (length (demes g)) = Inr cm \<and>
    inf_start_time g (inf_ratio opts) (log_x opts) = Inr ist \<and>
    j < length (demes g) \<and> d = demes g ! j \<and> k < length (epochs d) \<and> e = epochs d ! k"
  shows "set (fst (epoch_body g opts ist cm j d (k, e))) \<subseteq> set cs"
proof -
  from assms have run: "size_history_calls sz g opts = (cs, None)"
    and cm: "choose_cmap (cmap opts) (length (demes g)) = Inr cm"
    and ist: "inf_start_time g (inf_ratio opts) (log_x opts) = Inr ist"
    and j: "j < length (demes g)" and d: "d = demes g ! j"
    and e: "e = epochs d ! k"
    by simp_all
  from assms d have k: "k < length (epochs (demes g ! j))" by simp
  from size_history_epoch_calls [OF run cm ist j k] show ?thesis
    unfolding e d by simp
qed

text \<open>
  C7. The first call \<open>size_history\<close> makes for an epoch is the plot of its coordinates.
  For a constant epoch these are two points, (start time, start size) and (end time, end
  size), at the times the epoch is plotted at. For an exponential epoch, with a count
  that is not negative and a start size other than zero, they are \<open>num_exp_points\<close> pairs
  (100 by default) at evenly spaced times which, with at least two samples, run from the
  start time to the end time. In a run that completes, the calls of every epoch are among
  the calls made on the axes.
\<close>

theorem size_history_epoch_points:
  "(size_function e = ''constant'' \<longrightarrow>
      (\<exists>rest. epoch_body g opts ist cm j d (k, e) =
         (Plot [Finite (plot_start_time ist e), Finite (plot_end_time (log_x opts) e)]
               [Real (start_size e), Real (end_size e)] (plot_kwargs g cm j d) # rest, None))) \<and>
   (size_function e = ''exponential'' \<and> 0 \<le> num_exp_points opts \<and> start_size e \<noteq> 0 \<longrightarrow>
      (\<exists>x y rest. epoch_body g opts ist cm j d (k, e) =
            (Plot (map Finite x) y (plot_kwargs g cm j d) # rest, None) \<and>
         int (length x) = num_exp_points opts \<and> int (length y) = num_exp_points opts \<and>
         (\<forall>i < length x.
            x ! i = plot_start_time ist e +
                    real i * ((plot_end_time (log_x opts) e - plot_start_time ist e) /
                              real (nat (num_exp_points opts) - 1))) \<and>
         (2 \<le> num_exp_points opts \<longrightarrow>
            hd x = plot_start_time ist e \<and> last x = plot_end_time (log_x opts) e))) \<and>
   (size_history_calls sz g opts = (cs, None) \<and>
    choose_cmap (cmap opts) (length (demes g)) = Inr cm \<and>
    inf_start_time g (inf_ratio opts) (log_x opts) = Inr ist \<and>
    j < length (demes g) \<and> d = demes g ! j \<and> k < length (epochs d) \<and> e = epochs d ! k \<longrightarrow>
      set (fst (epoch_body g opts ist cm j d (k, e))) \<subseteq> set cs) \<and>
   num_exp_points default_options = 100"
proof (intro conjI impI)
  assume "size_function e = ''constant''"
  then show "\<exists>rest. epoch_body g opts ist cm j d (k, e) =
         (Plot [Finite (plot_start_time ist e), Finite (plot_end_time (log_x opts) e)]
               [Real (start_size e), Real (end_size e)] (plot_kwargs g cm j d) # rest, None)"
    by (rule epoch_body_constant)
next
  let ?n = "num_exp_points opts"
  let ?ps = "plot_start_time ist e"
  let ?pe = "plot_end_time (log_x opts) e"
  assume "size_function e = ''exponential'' \<and> 0 \<le> ?n \<and> start_size e \<noteq> 0"
  then have sf: "size_function e = ''exponential''" and n: "0 \<le> ?n"
    and s: "start_size e \<noteq> 0" by simp_all
  from epoch_body_exponential [OF sf n s, of ist g cm j d k] obtain x dt rest where
    x: "linspace ?ps ?pe ?n = Inr x" and dt: "linspace 0 1 ?n = Inr dt"
    and b: "epoch_body g opts ist cm j d (k, e) =
      (Plot (map Finite x) (map (exp_size e (np_log (end_size e / start_size e))) dt)
         (plot_kwargs g cm j d) # rest, None)"
    by blast
  from linspace_samples [OF n, of ?ps ?pe] x have lx: "int (length x) = ?n"
    and sx: "\<forall>i < length x. x ! i = ?ps + real i * ((?pe - ?ps) / real (nat ?n - 1))"
    by simp_all
  from linspace_samples [OF n, of 0 1] dt have ld: "int (length dt) = ?n" by simp
  have "2 \<le> ?n \<longrightarrow> hd x = ?ps \<and> last x = ?pe"
    using linspace_ends [OF _ x] by simp
  then have ends: "2 \<le> ?n \<Longrightarrow> hd x = ?ps \<and> last x = ?pe"
    by simp
  show "\<exists>x y rest. epoch_body g opts ist cm j d (k, e) =
            (Plot (map Finite x) y (plot_kwargs g cm j d) # rest, None) \<and>
         int (length x) = ?n \<and> int (length y) = ?n \<and>
         (\<forall>i < length x. x ! i = ?ps + real i * ((?pe - ?ps) / real (nat ?n - 1))) \<and>
         (2 \<le> ?n \<longrightarrow> hd x = ?ps \<and> last x = ?pe)"
  proof (intro exI conjI impI)
    show "epoch_body g opts ist cm j d (k, e) =
        (Plot (map Finite x) (map (exp_size e (np_log (end_size e / start_size e))) dt)
           (plot_kwargs g cm j d) # rest, None)"
      by (rule b)
    show "int (length x) = ?n" by (rule lx)
    show "int (length (map (exp_size e (np_log (end_size e / start_size e))) dt)) = ?n"
      using ld by simp
    show "\<forall>i < length x. x ! i = ?ps + real i * ((?pe - ?ps) / real (nat ?n - 1))"
      by (rule sx)
    show "hd x = ?ps" if "2 \<le> ?n" using ends [OF that] by simp
    show "last x = ?pe" if "2 \<le> ?n" using ends [OF that] by simp
  qed
next
  assume "size_history_calls sz g opts = (cs, None) \<and>
    choose_cmap (cmap opts) (length (demes g)) = Inr cm \<and>
    inf_start_time g (inf_ratio opts) (log_x opts) = Inr ist \<and>
    j < length (demes g) \<and> d = demes g ! j \<and> k < length (epochs d) \<and> e = epochs d ! k"
  then show "set (fst (epoch_body g opts ist cm j d (k, e))) \<subseteq> set cs"
    by (rule epoch_calls_in_run)
next
  show "num_exp_points default_options = 100"
    by (simp add: default_options_def)
qed

text \<open>
  C8. The plot \<open>size_history\<close> makes for an epoch has, as its end time, 1 when the time
  axis is logarithmic and the end time of the epoch is zero, and the end time of the
  epoch otherwise: it is the second time plotted for a constant epoch, and the time the
  samples of an exponential epoch run to. In a run that completes, that plot is among the
  calls made on the axes.
\<close>

theorem size_history_log_x_end_time:
  "(size_function e = ''constant'' \<longrightarrow>
      (\<exists>rest. epoch_body g opts ist cm j d (k, e) =
         (Plot [Finite (plot_start_time ist e),
                Finite (if log_x opts \<and> end_time e = 0 then 1 else end_time e)]
               [Real (start_size e), Real (end_size e)] (plot_kwargs g cm j d) # rest, None))) \<and>
   (size_function e = ''exponential'' \<and> 0 \<le> num_exp_points opts \<and> start_size e \<noteq> 0 \<longrightarrow>
      (\<exists>x y rest. epoch_body g opts ist cm j d (k, e) =
            (Plot (map Finite x) y (plot_kwargs g cm j d) # rest, None) \<and>
         linspace (plot_start_time ist e)
           (if log_x opts \<and> end_time e = 0 then 1 else end_time e) (num_exp_points opts) =
           Inr x \<and>
         (2 \<le> num_exp_points opts \<longrightarrow>
            last x = (if log_x opts \<and> end_time e = 0 then 1 else end_time e)))) \<and>
   (size_history_calls sz g opts = (cs, None) \<and>
    choose_cmap (cmap opts) (length (demes g)) = Inr cm \<and>
    inf_start_time g (inf_ratio opts) (log_x opts) = Inr ist \<and>
    j < length (demes g) \<and> d = demes g ! j \<and> k < length (epochs d) \<and> e = epochs d ! k \<longrightarrow>
      set (fst (epoch_body g opts ist cm j d (k, e))) \<subseteq> set cs)"
proof -
  let ?t = "if log_x opts \<and> end_time e = 0 then 1 else end_time e"
  have t: "plot_end_time (log_x opts) e = ?t"
    by (auto simp: plot_end_time_def)
  have A: "\<exists>rest. epoch_body g opts ist cm j d (k, e) =
         (Plot [Finite (plot_start_time ist e), Finite ?t]
               [Real (start_size e), Real (end_size e)] (plot_kwargs g cm j d) # rest, None)"
    if "size_function e = ''constant''"
    using epoch_body_constant [OF that, of g opts ist cm j d k] unfolding t .
  have B: "\<exists>x y rest. epoch_body g opts ist cm j d (k, e) =
            (Plot (map Finite x) y (plot_kwargs g cm j d) # rest, None) \<and>
         linspace (plot_start_time ist e) ?t (num_exp_points opts) = Inr x \<and>
         (2 \<le> num_exp_points opts \<longrightarrow> last x = ?t)"
    if h: "size_function e = ''exponential'' \<and> 0 \<le> num_exp_points opts \<and> start_size e \<noteq> 0"
  proof -
    from h have sf: "size_function e = ''exponential''" and n: "0 \<le> num_exp_points opts"
      and s: "start_size e \<noteq> 0" by simp_all
    from epoch_body_exponential [OF sf n s, of ist g cm j d k] obtain x dt rest where
      x: "linspace (plot_start_time ist e) ?t (num_exp_points opts) = Inr x"
      and b: "epoch_body g opts ist cm j d (k, e) =
        (Plot (map Finite x) (map (exp_size e (np_log (end_size e / start_size e))) dt)
           (plot_kwargs g cm j d) # rest, None)"
      unfolding t by blast
    have "2 \<le> num_exp_points opts \<longrightarrow> last x = ?t"
      using linspace_ends [OF _ x] by simp
    with b x show ?thesis by blast
  qed
  have C: "set (fst (epoch_body g opts ist cm j d (k, e))) \<subseteq> set cs"
    if "size_history_calls sz g opts = (cs, None) \<and>
      choose_cmap (cmap opts) (length (demes g)) = Inr cm \<and>
      inf_start_time g (inf_ratio opts) (log_x opts) = Inr ist \<and>
      j < length (demes g) \<and> d = demes g ! j \<and> k < length (epochs d) \<and> e = epochs d ! k"
    using that by (rule epoch_calls_in_run)
  from A B C show ?thesis by blast
qed

lemma not_all_Real: "y \<noteq> [] \<Longrightarrow> hd y = NaN \<Longrightarrow> \<not> (\<exists>ys. y = map Real ys)"
  by (cases y) auto

text \<open>
  C9, as amended. \<open>size_history\<close> does not guard the sizes of an exponential epoch. A
  start size of zero raises ZeroDivisionError at the division, and the epoch is not
  plotted. With any other start size no error is raised and the epoch is plotted; with
  at least one sample, the sizes plotted are all real numbers exactly when the start and
  end sizes are both positive or both negative, and with an end size of zero the rate is
  \<open>-inf\<close> and the first size plotted is \<open>nan\<close>.
\<close>

theorem exponential_sizes_unguarded:
  assumes sf: "size_function e = ''exponential''" and n: "0 \<le> num_exp_points opts"
  shows "(start_size e = 0 \<longrightarrow>
            epoch_body g opts ist cm j d (k, e) = ([], Some ZeroDivisionError)) \<and>
         (start_size e \<noteq> 0 \<longrightarrow>
            (\<exists>x y rest. epoch_body g opts ist cm j d (k, e) =
                 (Plot (map Finite x) y (plot_kwargs g cm j d) # rest, None) \<and>
               int (length y) = num_exp_points opts \<and>
               (1 \<le> num_exp_points opts \<longrightarrow>
                  ((\<exists>ys. y = map Real ys) \<longleftrightarrow>
                     (0 < start_size e \<and> 0 < end_size e) \<or>
                     (start_size e < 0 \<and> end_size e < 0)) \<and>
                  (end_size e = 0 \<longrightarrow> exp_rate e = Inr NegInf \<and> hd y = NaN))))"
proof (intro conjI impI)
  assume z: "start_size e = 0"
  from linspace_samples [OF n] obtain x where
    "linspace (plot_start_time ist e) (plot_end_time (log_x opts) e) (num_exp_points opts) =
      Inr x" by blast
  moreover from linspace_samples [OF n] obtain dt where
    "linspace 0 1 (num_exp_points opts) = Inr dt" by blast
  ultimately have "epoch_coords ist (log_x opts) (num_exp_points opts) k e =
      Inl ZeroDivisionError"
    using sf exp_rate_zero [OF z] by (simp add: epoch_coords_def)
  then show "epoch_body g opts ist cm j d (k, e) = ([], Some ZeroDivisionError)"
    by (rule epoch_body_raises)
next
  let ?q = "end_size e / start_size e"
  let ?y = "\<lambda>dt. map (exp_size e (np_log ?q)) dt"
  assume s: "start_size e \<noteq> 0"
  from epoch_body_exponential [OF sf n s, of ist g cm j d k] obtain x dt rest where
    dt: "linspace 0 1 (num_exp_points opts) = Inr dt"
    and b: "epoch_body g opts ist cm j d (k, e) =
      (Plot (map Finite x) (?y dt) (plot_kwargs g cm j d) # rest, None)"
    by blast
  from linspace_samples [OF n, of 0 1] dt have ld: "int (length (?y dt)) = num_exp_points opts"
    by simp
  have q: "0 < ?q \<longleftrightarrow>
      (0 < start_size e \<and> 0 < end_size e) \<or> (start_size e < 0 \<and> end_size e < 0)"
    by (auto simp: zero_less_divide_iff)
  have fin: "\<exists>ys. ?y dt = map Real ys" if "0 < ?q"
  proof -
    have "?y dt = map Real (map (\<lambda>t. exp (ln ?q * t) * start_size e) dt)"
      using np_log_pos [OF that] by (simp add: exp_size_Real)
    then show ?thesis ..
  qed
  have nan: "hd (?y dt) = NaN \<and> ?y dt \<noteq> []" if "\<not> 0 < ?q" "1 \<le> num_exp_points opts"
  proof -
    from linspace_first [OF that(2) dt] have d0: "dt \<noteq> []" "hd dt = 0" by simp_all
    from that(1) have "\<forall>l. np_log ?q \<noteq> Real l" by (simp add: np_log_def)
    then have "exp_size e (np_log ?q) 0 = NaN" by (rule exp_size_not_Real)
    with d0 show ?thesis by (simp add: hd_map)
  qed
  have iff: "(\<exists>ys. ?y dt = map Real ys) \<longleftrightarrow>
      (0 < start_size e \<and> 0 < end_size e) \<or> (start_size e < 0 \<and> end_size e < 0)"
    if "1 \<le> num_exp_points opts"
  proof (cases "0 < ?q")
    case True
    with fin q show ?thesis by simp
  next
    case False
    from nan [OF False that] have "\<not> (\<exists>ys. ?y dt = map Real ys)"
      using not_all_Real by blast
    with False q show ?thesis by simp
  qed
  have zero: "exp_rate e = Inr NegInf \<and> hd (?y dt) = NaN"
    if "1 \<le> num_exp_points opts" "end_size e = 0"
  proof -
    from that(2) have "\<not> 0 < ?q" by simp
    from nan [OF this that(1)] have "hd (?y dt) = NaN" by simp
    moreover have "exp_rate e = Inr NegInf"
      using exp_rate_nonzero [OF s] that(2) by (simp add: np_log_def)
    ultimately show ?thesis by simp
  qed
  from b ld iff zero show "\<exists>x y rest. epoch_body g opts ist cm j d (k, e) =
                 (Plot (map Finite x) y (plot_kwargs g cm j d) # rest, None) \<and>
               int (length y) = num_exp_points opts \<and>
               (1 \<le> num_exp_points opts \<longrightarrow>
                  ((\<exists>ys. y = map Real ys) \<longleftrightarrow>
                     (0 < start_size e \<and> 0 < end_size e) \<or>
                     (start_size e < 0 \<and> end_size e < 0)) \<and>
                  (end_size e = 0 \<longrightarrow> exp_rate e = Inr NegInf \<and> hd y = NaN))"
    by blast
qed

text \<open>
  C3, as amended. When the run reaches an epoch whose size function is neither
  \<open>constant\<close> nor \<open>exponential\<close> (the colour map is chosen, the horizon is computed,
  and the demes before its deme and the epochs before it in its deme are drawn without
  error), \<open>size_history\<close> raises ValueError. The message names the index of the epoch in
  its deme and the size function, and not the deme. The calls made for the earlier demes
  and epochs stay on the axes; no call is made for the epoch or after it.
\<close>

theorem size_history_unknown_size_function:
  assumes cm: "choose_cmap (cmap opts) (length (demes g)) = Inr cm"
    and ist: "inf_start_time g (inf_ratio opts) (log_x opts) = Inr ist"
    and ds: "demes g = dpre @ d # dpost"
    and cs1: "for_loop (deme_body sz g opts ist cm) (List.enumerate 0 dpre) = (cs1, None)"
    and es: "epochs d = epre @ e # epost"
    and cs2: "for_loop (epoch_body g opts ist cm (length dpre) d) (List.enumerate 0 epre) =
              (cs2, None)"
    and sf: "size_function e \<noteq> ''constant''" "size_function e \<noteq> ''exponential''"
  shows "size_history sz g ax opts =
         ((case ax of None \<Rightarrow> [] | Some a \<Rightarrow> a) @ cs1 @ cs2,
          Some (ValueError (''Don't know how to plot epoch '' @ str_nat (length epre) @
                            '' with \"'' @ size_function e @ ''\" size_function.'')))"
proof -
  let ?err = "unknown_size_function (length epre) (size_function e)"
  have "List.enumerate 0 (epochs d) =
      List.enumerate 0 epre @ (length epre, e) # List.enumerate (Suc (length epre)) epost"
    by (simp add: es enumerate_append_eq)
  then have "for_loop (epoch_body g opts ist cm (length dpre) d) (List.enumerate 0 (epochs d)) =
      (cs2 @ [], Some ?err)"
    using for_loop_raises [OF cs2 epoch_body_unknown [OF sf]] by simp
  then have d: "deme_body sz g opts ist cm (length dpre, d) = (cs2, Some ?err)"
    by (simp add: deme_body_def and_then_Some)
  have "List.enumerate 0 (demes g) =
      List.enumerate 0 dpre @ (length dpre, d) # List.enumerate (Suc (length dpre)) dpost"
    by (simp add: ds enumerate_append_eq)
  then have "for_loop (deme_body sz g opts ist cm) (List.enumerate 0 (demes g)) =
      (cs1 @ cs2, Some ?err)"
    using for_loop_raises [OF cs1 d] by simp
  then have "size_history_calls sz g opts = (cs1 @ cs2, Some ?err)"
    by (simp add: size_history_calls_def cm ist and_then_Some)
  then show ?thesis
    by (simp add: size_history_def unknown_size_function_def)
qed

lemma epoch_annotation_cmap:
  "epoch_annotation g (opts\<lparr>cmap := c\<rparr>) = epoch_annotation g opts"
  by (simp add: fun_eq_iff epoch_annotation_def)

lemma epoch_body_cmap: "epoch_body g (opts\<lparr>cmap := c\<rparr>) = epoch_body g opts"
  by (auto simp: fun_eq_iff epoch_body_def epoch_annotation_cmap split: sum.splits)

lemma infinity_arrow_cmap: "infinity_arrow g (opts\<lparr>cmap := c\<rparr>) = infinity_arrow g opts"
  by (auto simp: fun_eq_iff infinity_arrow_def split: list.splits)

lemma deme_body_cmap: "deme_body sz g (opts\<lparr>cmap := c\<rparr>) = deme_body sz g opts"
  by (simp add: fun_eq_iff deme_body_def epoch_body_cmap infinity_arrow_cmap)

lemma finish_axes_cmap: "finish_axes g (opts\<lparr>cmap := c\<rparr>) = finish_axes g opts"
  by (simp add: fun_eq_iff finish_axes_def)

lemma size_history_given_cmap:
  assumes "choose_cmap (cmap opts) (length (demes g)) = Inr cm"
  shows "size_history sz g ax opts = size_history sz g ax (opts\<lparr>cmap := Some cm\<rparr>)"
proof -
  have "choose_cmap (cmap (opts\<lparr>cmap := Some cm\<rparr>)) (length (demes g)) = Inr cm"
    by (simp add: choose_cmap_def)
  then have "size_history_calls sz g (opts\<lparr>cmap := Some cm\<rparr>) = size_history_calls sz g opts"
    using assms
    by (simp add: size_history_calls_def deme_body_cmap finish_axes_cmap cong: sum.case_cong)
  then show ?thesis
    by (simp add: size_history_def)
qed

lemma size_history_epoch_colour:
  assumes run: "size_history_calls sz g opts = (cs, None)"
    and cm: "choose_cmap (cmap opts) (length (demes g)) = Inr cm"
    and j: "j < length (demes g)" and k: "k < length (epochs (demes g ! j))"
  shows "\<exists>x y. Plot x y (plot_kwargs g cm j (demes g ! j)) \<in> set cs"
proof -
  from run cm obtain ist where ist: "inf_start_time g (inf_ratio opts) (log_x opts) = Inr ist"
    by (cases "inf_start_time g (inf_ratio opts) (log_x opts)")
      (simp_all add: size_history_calls_def)
  let ?d = "demes g ! j" and ?e = "epochs (demes g ! j) ! k"
  from size_history_epoch_calls [OF run cm ist j k] have
    ok: "snd (epoch_body g opts ist cm j ?d (k, ?e)) = None"
    and sub: "set (fst (epoch_body g opts ist cm j ?d (k, ?e))) \<subseteq> set cs"
    by simp_all
  from ok obtain x y where
    "epoch_coords ist (log_x opts) (num_exp_points opts) k ?e = Inr (x, y)"
    by (cases "epoch_coords ist (log_x opts) (num_exp_points opts) k ?e")
      (auto simp: epoch_body_def)
  from epoch_body_plot [OF this, of g cm j ?d] obtain rest where
    "epoch_body g opts ist cm j ?d (k, ?e) =
      (Plot (map Finite x) y (plot_kwargs g cm j ?d) # rest, None)" ..
  with sub have "Plot (map Finite x) y (plot_kwargs g cm j ?d) \<in> set cs" by simp
  then show ?thesis by blast
qed

text \<open>
  C4. With no colour map given: for at most 10 demes the run is the run with \<open>tab10\<close>
  given, and in a run that completes every epoch of deme \<open>j\<close> is plotted in the colour
  \<open>tab10(j)\<close>; for 11 to 20 demes the same holds with \<open>tab20\<close>; for more than 20 demes
  ValueError is raised and no call has been made on the axes.
\<close>

theorem size_history_default_cmap:
  assumes "cmap opts = None"
  shows "(length (demes g) \<le> 10 \<longrightarrow>
            size_history sz g ax opts = size_history sz g ax (opts\<lparr>cmap := Some Tab10\<rparr>) \<and>
            (\<forall>cs j k. size_history_calls sz g opts = (cs, None) \<and> j < length (demes g) \<and>
                      k < length (epochs (demes g ! j)) \<longrightarrow>
               (\<exists>x y kw. Plot x y kw \<in> set cs \<and> kw = plot_kwargs g Tab10 j (demes g ! j) \<and>
                         color kw = Colour Tab10 j))) \<and>
         (10 < length (demes g) \<and> length (demes g) \<le> 20 \<longrightarrow>
            size_history sz g ax opts = size_history sz g ax (opts\<lparr>cmap := Some Tab20\<rparr>) \<and>
            (\<forall>cs j k. size_history_calls sz g opts = (cs, None) \<and> j < length (demes g) \<and>
                      k < length (epochs (demes g ! j)) \<longrightarrow>
               (\<exists>x y kw. Plot x y kw \<in> set cs \<and> kw = plot_kwargs g Tab20 j (demes g ! j) \<and>
                         color kw = Colour Tab20 j))) \<and>
         (20 < length (demes g) \<longrightarrow>
            size_history sz g ax opts =
              ((case ax of None \<Rightarrow> [] | Some a \<Rightarrow> a),
               Some (ValueError
                 ''Graph has more than 20 demes, so cmap must be specified. Good luck!'')))"
proof -
  have used: "size_history sz g ax opts = size_history sz g ax (opts\<lparr>cmap := Some cm\<rparr>) \<and>
      (\<forall>cs j k. size_history_calls sz g opts = (cs, None) \<and> j < length (demes g) \<and>
                k < length (epochs (demes g ! j)) \<longrightarrow>
         (\<exists>x y kw. Plot x y kw \<in> set cs \<and> kw = plot_kwargs g cm j (demes g ! j) \<and>
                   color kw = Colour cm j))"
    if cm: "choose_cmap (cmap opts) (length (demes g)) = Inr cm" for cm
  proof -
    have "\<exists>x y kw. Plot x y kw \<in> set cs \<and> kw = plot_kwargs g cm j (demes g ! j) \<and>
        color kw = Colour cm j"
      if "size_history_calls sz g opts = (cs, None)" "j < length (demes g)"
        "k < length (epochs (demes g ! j))" for cs j k
      using size_history_epoch_colour [OF that(1) cm that(2,3)]
      by (auto simp: plot_kwargs_def)
    with size_history_given_cmap [OF cm, of sz ax] show ?thesis by blast
  qed
  have 1: "choose_cmap (cmap opts) (length (demes g)) = Inr Tab10"
    if "length (demes g) \<le> 10"
    using that assms by (simp add: choose_cmap_def)
  have 2: "choose_cmap (cmap opts) (length (demes g)) = Inr Tab20"
    if "10 < length (demes g) \<and> length (demes g) \<le> 20"
    using that assms by (simp add: choose_cmap_def)
  have 3: "size_history sz g ax opts =
      ((case ax of None \<Rightarrow> [] | Some a \<Rightarrow> a),
       Some (ValueError ''Graph has more than 20 demes, so cmap must be specified. Good luck!''))"
    if "20 < length (demes g)"
    using that assms by (simp add: size_history_def size_history_calls_def choose_cmap_def)
  from used [OF 1] used [OF 2] 3 show ?thesis by blast
qed

text \<open>
  C5. In a run that completes, for consecutive epochs \<open>k - 1\<close> and \<open>k\<close> of a deme, the
  dotted line from (end time, end size) of epoch \<open>k - 1\<close> to (start time, start size) of
  epoch \<open>k\<close> is among the calls made on the axes if and only if the end size of epoch
  \<open>k - 1\<close> differs from the start size of epoch \<open>k\<close>.
\<close>

theorem size_history_discontinuity:
  assumes run: "size_history_calls sz g opts = (cs, None)"
    and cm: "choose_cmap (cmap opts) (length (demes g)) = Inr cm"
    and j: "j < length (demes g)" and d: "d = demes g ! j"
    and k: "0 < k" "k < length (epochs d)"
  shows "Plot [Finite (end_time (epochs d ! (k - 1))), start_time (epochs d ! k)]
              [Real (end_size (epochs d ! (k - 1))), Real (start_size (epochs d ! k))]
              (discontinuity_kwargs g cm j) \<in> set cs \<longleftrightarrow>
         end_size (epochs d ! (k - 1)) \<noteq> start_size (epochs d ! k)"
proof
  let ?c = "Plot [Finite (end_time (epochs d ! (k - 1))), start_time (epochs d ! k)]
      [Real (end_size (epochs d ! (k - 1))), Real (start_size (epochs d ! k))]
      (discontinuity_kwargs g cm j)"
  assume "?c \<in> set cs"
  with size_history_calls_dotted [of sz g opts] run have "dotted_jump ?c" by simp
  then show "end_size (epochs d ! (k - 1)) \<noteq> start_size (epochs d ! k)"
    by (simp add: dotted_jump_def discontinuity_kwargs_def)
next
  let ?e = "epochs d ! k"
  assume ne: "end_size (epochs d ! (k - 1)) \<noteq> start_size ?e"
  from run cm obtain ist where ist: "inf_start_time g (inf_ratio opts) (log_x opts) = Inr ist"
    by (cases "inf_start_time g (inf_ratio opts) (log_x opts)")
      (simp_all add: size_history_calls_def)
  from k(2) d have k': "k < length (epochs (demes g ! j))" by simp
  from size_history_epoch_calls [OF run cm ist j k'] d have
    ok: "snd (epoch_body g opts ist cm j d (k, ?e)) = None"
    and sub: "set (fst (epoch_body g opts ist cm j d (k, ?e))) \<subseteq> set cs"
    by simp_all
  from ok obtain x y where
    "epoch_coords ist (log_x opts) (num_exp_points opts) k ?e = Inr (x, y)"
    by (cases "epoch_coords ist (log_x opts) (num_exp_points opts) k ?e")
      (auto simp: epoch_body_def)
  with ne k(1) have "Plot [Finite (end_time (epochs d ! (k - 1))), start_time ?e]
      [Real (end_size (epochs d ! (k - 1))), Real (start_size ?e)]
      (discontinuity_kwargs g cm j) \<in> set (fst (epoch_body g opts ist cm j d (k, ?e)))"
    by (simp add: epoch_body_def)
  with sub show "Plot [Finite (end_time (epochs d ! (k - 1))), start_time ?e]
      [Real (end_size (epochs d ! (k - 1))), Real (start_size ?e)]
      (discontinuity_kwargs g cm j) \<in> set cs"
    by blast
qed

section \<open>Runs on the example graphs\<close>

lemma jump_graph_fields:
  "demes jump_graph = [jump_deme]" "epochs jump_deme = [root_epoch, jump_epoch]"
  "deme_start_time jump_deme = Inf" "ancestors jump_deme = []"
  by (simp_all add: jump_graph_def jump_deme_def)

lemma epoch_fields:
  "start_time root_epoch = Inf" "end_time root_epoch = 100"
  "start_size root_epoch = 1000" "end_size root_epoch = 1000"
  "size_function root_epoch = ''constant''"
  "start_time jump_epoch = Finite 100" "end_time jump_epoch = 0"
  "start_size jump_epoch = 3000" "end_size jump_epoch = 3000"
  "size_function jump_epoch = ''constant''"
  by (simp_all add: root_epoch_def jump_epoch_def)

lemma oldest_jump: "oldest_noninf_time jump_graph = Inr 100"
  by (simp add: oldest_noninf_time_def jump_graph_fields epoch_fields)

lemma jump_deme_body:
  assumes "\<not> annotate_epochs opts" "\<not> inf_label opts"
  shows "deme_body no_ancestor_size jump_graph opts ist Tab10 (0, jump_deme) =
     ([Plot [Finite ist, Finite 100] [Real 1000, Real 1000]
         (plot_kwargs jump_graph Tab10 0 jump_deme),
       Plot [Finite 100, Finite (if log_x opts then 1 else 0)] [Real 3000, Real 3000]
         (plot_kwargs jump_graph Tab10 0 jump_deme),
       Plot [Finite 100, Finite 100] [Real 1000, Real 3000]
         (discontinuity_kwargs jump_graph Tab10 0),
       PlotMarker ist 1000 (if invert_x opts then ''<k'' else ''>k'') (Colour Tab10 0)
         (z_top jump_graph)], None)"
  using assms
  by (simp add: deme_body_def jump_graph_fields epoch_fields epoch_body_def epoch_coords_def
      plot_start_time_def plot_end_time_def infinity_arrow_def and_then_def)

lemma jump_run:
  assumes "\<not> annotate_epochs opts" "\<not> inf_label opts" "cmap opts = None"
    and "inf_start_time jump_graph (inf_ratio opts) (log_x opts) = Inr ist"
  shows "size_history_calls no_ancestor_size jump_graph opts =
     ([Plot [Finite ist, Finite 100] [Real 1000, Real 1000]
         (plot_kwargs jump_graph Tab10 0 jump_deme),
       Plot [Finite 100, Finite (if log_x opts then 1 else 0)] [Real 3000, Real 3000]
         (plot_kwargs jump_graph Tab10 0 jump_deme),
       Plot [Finite 100, Finite 100] [Real 1000, Real 3000]
         (discontinuity_kwargs jump_graph Tab10 0),
       PlotMarker ist 1000 (if invert_x opts then ''<k'' else ''>k'') (Colour Tab10 0)
         (z_top jump_graph)] @ finish_axes jump_graph opts ist Tab10, None)"
proof -
  have "choose_cmap (cmap opts) (length (demes jump_graph)) = Inr Tab10"
    using assms(3) by (simp add: choose_cmap_def jump_graph_fields)
  then show ?thesis
    using assms(4) jump_deme_body [OF assms(1,2), of ist]
    by (simp add: size_history_calls_def jump_graph_fields and_then_def)
qed

lemma jump_horizon:
  "inf_start_time jump_graph (inf_ratio default_options) (log_x default_options) =
     Inr (1000 / 9)"
  "inf_start_time jump_graph (inf_ratio log_x_options) (log_x log_x_options) =
     Inr (exp (ln 100 / (9 / 10)))"
  by (simp_all add: inf_start_time_def oldest_jump default_options_def log_x_options_def
      py_div_def np_log_def)

lemma jump_cmap:
  "choose_cmap (cmap default_options) (length (demes jump_graph)) = Inr Tab10"
  "choose_cmap (cmap log_x_options) (length (demes jump_graph)) = Inr Tab10"
  by (simp_all add: choose_cmap_def jump_graph_fields default_options_def log_x_options_def)

lemma jump_run_default:
  "size_history_calls no_ancestor_size jump_graph default_options =
     ([Plot [Finite (1000 / 9), Finite 100] [Real 1000, Real 1000]
         (plot_kwargs jump_graph Tab10 0 jump_deme),
       Plot [Finite 100, Finite 0] [Real 3000, Real 3000]
         (plot_kwargs jump_graph Tab10 0 jump_deme),
       Plot [Finite 100, Finite 100] [Real 1000, Real 3000]
         (discontinuity_kwargs jump_graph Tab10 0),
       PlotMarker (1000 / 9) 1000 ''>k'' (Colour Tab10 0) (z_top jump_graph)] @
      finish_axes jump_graph default_options (1000 / 9) Tab10, None)"
proof -
  have "\<not> annotate_epochs default_options" "\<not> inf_label default_options"
    "cmap default_options = None" "\<not> log_x default_options" "\<not> invert_x default_options"
    by (simp_all add: default_options_def)
  with jump_run [OF this(1,2,3) jump_horizon(1)] show ?thesis by simp
qed

lemma jump_run_log_x:
  "size_history_calls no_ancestor_size jump_graph log_x_options =
     ([Plot [Finite (exp (ln 100 / (9 / 10))), Finite 100] [Real 1000, Real 1000]
         (plot_kwargs jump_graph Tab10 0 jump_deme),
       Plot [Finite 100, Finite 1] [Real 3000, Real 3000]
         (plot_kwargs jump_graph Tab10 0 jump_deme),
       Plot [Finite 100, Finite 100] [Real 1000, Real 3000]
         (discontinuity_kwargs jump_graph Tab10 0),
       PlotMarker (exp (ln 100 / (9 / 10))) 1000 ''>k'' (Colour Tab10 0) (z_top jump_graph)] @
      finish_axes jump_graph log_x_options (exp (ln 100 / (9 / 10))) Tab10, None)"
proof -
  have "\<not> annotate_epochs log_x_options" "\<not> inf_label log_x_options"
    "cmap log_x_options = None" "log_x log_x_options" "\<not> invert_x log_x_options"
    by (simp_all add: log_x_options_def)
  with jump_run [OF this(1,2,3) jump_horizon(2)] show ?thesis by simp
qed

theorem size_history_discontinuity_witness:
  "Plot [Finite 100, Finite 100] [Real 1000, Real 3000]
     (discontinuity_kwargs jump_graph Tab10 0)
     \<in> set (fst (size_history_calls no_ancestor_size jump_graph default_options)) \<and>
   snd (size_history_calls no_ancestor_size jump_graph default_options) = None"
proof -
  have k: "(0::nat) < 1" "1 < length (epochs jump_deme)"
    by (simp_all add: jump_graph_fields)
  have j: "0 < length (demes jump_graph)" "jump_deme = demes jump_graph ! 0"
    by (simp_all add: jump_graph_fields)
  from size_history_discontinuity [OF jump_run_default jump_cmap(1) j k]
  show ?thesis
    by (simp add: jump_run_default jump_graph_fields epoch_fields)
qed

theorem size_history_epoch_points_witness:
  "(\<exists>rest. epoch_body jump_graph default_options (1000 / 9) Tab10 0 jump_deme (0, root_epoch) =
      (Plot [Finite (1000 / 9), Finite 100] [Real 1000, Real 1000]
         (plot_kwargs jump_graph Tab10 0 jump_deme) # rest, None)) \<and>
   (\<exists>x y rest. epoch_body example_graph default_options (1000 / 9) Tab10 0 example_deme
        (1, growth_epoch) =
        (Plot (map Finite x) y (plot_kwargs example_graph Tab10 0 example_deme) # rest, None) \<and>
      length x = 100 \<and> length y = 100 \<and> hd x = 100 \<and> last x = 0) \<and>
   set (fst (epoch_body jump_graph default_options (1000 / 9) Tab10 0 jump_deme (0, root_epoch)))
     \<subseteq> set (fst (size_history_calls no_ancestor_size jump_graph default_options))"
proof -
  have n: "num_exp_points default_options = 100" "\<not> log_x default_options"
    by (simp_all add: default_options_def)
  have g: "size_function growth_epoch = ''exponential''" "start_size growth_epoch \<noteq> 0"
    "start_time growth_epoch = Finite 100" "end_time growth_epoch = 0"
    by (simp_all add: growth_epoch_def)
  have r: "0 < length (demes jump_graph)" "jump_deme = demes jump_graph ! 0"
    "0 < length (epochs jump_deme)" "root_epoch = epochs jump_deme ! 0"
    by (simp_all add: jump_graph_fields)
  note w1 = size_history_epoch_points [where e = root_epoch and g = jump_graph
      and opts = default_options and ist = "1000 / 9" and cm = Tab10 and j = 0 and d = jump_deme
      and k = 0 and sz = no_ancestor_size
      and cs = "fst (size_history_calls no_ancestor_size jump_graph default_options)"]
  note w2 = size_history_epoch_points [where e = growth_epoch and g = example_graph
      and opts = default_options and ist = "1000 / 9" and cm = Tab10 and j = 0
      and d = example_deme and k = 1 and sz = no_ancestor_size and cs = "[]"]
  have A: "\<exists>rest. epoch_body jump_graph default_options (1000 / 9) Tab10 0 jump_deme
      (0, root_epoch) =
      (Plot [Finite (1000 / 9), Finite 100] [Real 1000, Real 1000]
         (plot_kwargs jump_graph Tab10 0 jump_deme) # rest, None)"
    using w1 n by (simp add: epoch_fields plot_start_time_def plot_end_time_def)
  have B: "\<exists>x y rest. epoch_body example_graph default_options (1000 / 9) Tab10 0 example_deme
        (1, growth_epoch) =
        (Plot (map Finite x) y (plot_kwargs example_graph Tab10 0 example_deme) # rest, None) \<and>
      length x = 100 \<and> length y = 100 \<and> hd x = 100 \<and> last x = 0"
    using w2 n g by (auto simp: plot_start_time_def plot_end_time_def)
  have C: "set (fst (epoch_body jump_graph default_options (1000 / 9) Tab10 0 jump_deme
      (0, root_epoch)))
     \<subseteq> set (fst (size_history_calls no_ancestor_size jump_graph default_options))"
    using w1 jump_run_default jump_cmap(1) jump_horizon(1) r by simp
  from A B C show ?thesis by blast
qed

lemma linspace_two: "linspace a b 2 = Inr [a, b]"
  by (simp add: linspace_def numeral_2_eq_2)

lemma logistic_fields:
  "demes logistic_graph = [logistic_deme]" "epochs logistic_deme = [root_epoch, logistic_epoch]"
  "size_function logistic_epoch = ''logistic''"
  by (simp_all add: logistic_graph_def logistic_deme_def logistic_epoch_def)

lemma logistic_horizon:
  "inf_start_time logistic_graph (inf_ratio default_options) (log_x default_options) =
     Inr (1000 / 9)"
  by (simp add: inf_start_time_def oldest_noninf_time_def logistic_fields epoch_fields
      default_options_def py_div_def)

lemma logistic_cmap:
  "choose_cmap (cmap default_options) (length (demes logistic_graph)) = Inr Tab10"
  by (simp add: choose_cmap_def logistic_fields default_options_def)

lemma logistic_root:
  "epoch_body logistic_graph default_options (1000 / 9) Tab10 0 logistic_deme (0, root_epoch) =
     ([Plot [Finite (1000 / 9), Finite 100] [Real 1000, Real 1000]
         (plot_kwargs logistic_graph Tab10 0 logistic_deme)], None)"
  by (simp add: epoch_body_def epoch_coords_def epoch_fields plot_start_time_def
      plot_end_time_def default_options_def)

lemma logistic_kwargs:
  "plot_kwargs logistic_graph Tab10 0 logistic_deme =
     \<lparr>color = Colour Tab10 0, linestyle = ''solid'', linewidth = 2, label = Some ''YRI'',
      zorder = 8\<rparr>"
  by (simp add: plot_kwargs_def linewidths_def z_top_def logistic_fields logistic_deme_def)

text \<open>
  The claim C3 as it is written fails for a deme \<open>YRI\<close> whose second epoch is
  \<open>logistic\<close>: its first epoch is plotted before the error is raised, and the message
  names epoch 1 and the size function, and not the deme.
\<close>

theorem size_history_logistic_counterexample:
  "size_history no_ancestor_size logistic_graph None default_options =
     ([Plot [Finite (1000 / 9), Finite 100] [Real 1000, Real 1000]
         \<lparr>color = Colour Tab10 0, linestyle = ''solid'', linewidth = 2, label = Some ''YRI'',
          zorder = 8\<rparr>],
      Some (ValueError ''Don't know how to plot epoch 1 with \"logistic\" size_function.''))"
proof -
  have e1: "epoch_body logistic_graph default_options (1000 / 9) Tab10 0 logistic_deme
      (1, logistic_epoch) =
      ([], Some (ValueError ''Don't know how to plot epoch 1 with \"logistic\" size_function.''))"
    by (simp add: epoch_body_def epoch_coords_def logistic_fields unknown_size_function_def
        str_nat.simps)
  have "deme_body no_ancestor_size logistic_graph default_options (1000 / 9) Tab10
      (0, logistic_deme) =
      ([Plot [Finite (1000 / 9), Finite 100] [Real 1000, Real 1000]
          (plot_kwargs logistic_graph Tab10 0 logistic_deme)],
       Some (ValueError ''Don't know how to plot epoch 1 with \"logistic\" size_function.''))"
    using logistic_root e1 by (simp add: deme_body_def logistic_fields and_then_def)
  then have "size_history_calls no_ancestor_size logistic_graph default_options =
      ([Plot [Finite (1000 / 9), Finite 100] [Real 1000, Real 1000]
          (plot_kwargs logistic_graph Tab10 0 logistic_deme)],
       Some (ValueError ''Don't know how to plot epoch 1 with \"logistic\" size_function.''))"
    unfolding size_history_calls_def logistic_cmap logistic_horizon
    by (simp add: logistic_fields and_then_def)
  then show ?thesis
    by (simp add: size_history_def logistic_kwargs)
qed

theorem size_history_unknown_size_function_witness:
  "size_history no_ancestor_size logistic_graph None default_options =
     ([Plot [Finite (1000 / 9), Finite 100] [Real 1000, Real 1000]
         (plot_kwargs logistic_graph Tab10 0 logistic_deme)],
      Some (ValueError ''Don't know how to plot epoch 1 with \"logistic\" size_function.''))"
proof -
  have ds: "demes logistic_graph = [] @ logistic_deme # []"
    by (simp add: logistic_fields)
  have cs1: "for_loop (deme_body no_ancestor_size logistic_graph default_options (1000 / 9) Tab10)
      (List.enumerate 0 []) = ([], None)"
    by simp
  have es: "epochs logistic_deme = [root_epoch] @ logistic_epoch # []"
    by (simp add: logistic_fields)
  have cs2: "for_loop (epoch_body logistic_graph default_options (1000 / 9) Tab10
      (length ([] :: deme list)) logistic_deme) (List.enumerate 0 [root_epoch]) =
      ([Plot [Finite (1000 / 9), Finite 100] [Real 1000, Real 1000]
          (plot_kwargs logistic_graph Tab10 0 logistic_deme)], None)"
    using logistic_root by (simp add: and_then_def)
  have sf: "size_function logistic_epoch \<noteq> ''constant''"
    "size_function logistic_epoch \<noteq> ''exponential''"
    by (simp_all add: logistic_fields)
  show ?thesis
    using size_history_unknown_size_function
      [OF logistic_cmap logistic_horizon ds cs1 es cs2 sf, of None]
    by (simp add: logistic_fields str_nat.simps)
qed

theorem size_history_default_cmap_witness:
  "size_history no_ancestor_size many_demes_graph None default_options =
     ([], Some (ValueError
        ''Graph has more than 20 demes, so cmap must be specified. Good luck!'')) \<and>
   size_history no_ancestor_size dozen_demes_graph None default_options =
     size_history no_ancestor_size dozen_demes_graph None (default_options\<lparr>cmap := Some Tab20\<rparr>) \<and>
   size_history no_ancestor_size jump_graph None default_options =
     size_history no_ancestor_size jump_graph None (default_options\<lparr>cmap := Some Tab10\<rparr>) \<and>
   (\<exists>x y kw. Plot x y kw
        \<in> set (fst (size_history_calls no_ancestor_size jump_graph default_options)) \<and>
      color kw = Colour Tab10 0)"
proof -
  have c: "cmap default_options = None"
    by (simp add: default_options_def)
  have many: "20 < length (demes many_demes_graph)"
    by (simp add: many_demes_graph_def)
  have dozen: "10 < length (demes dozen_demes_graph) \<and> length (demes dozen_demes_graph) \<le> 20"
    by (simp add: dozen_demes_graph_def)
  have one: "length (demes jump_graph) \<le> 10"
    by (simp add: jump_graph_fields)
  have run: "size_history_calls no_ancestor_size jump_graph default_options =
      (fst (size_history_calls no_ancestor_size jump_graph default_options), None) \<and>
      0 < length (demes jump_graph) \<and> 0 < length (epochs (demes jump_graph ! 0))"
    by (simp add: jump_run_default jump_graph_fields)
  from size_history_default_cmap [OF c, of many_demes_graph no_ancestor_size None] many
  have A: "size_history no_ancestor_size many_demes_graph None default_options =
     ([], Some (ValueError
        ''Graph has more than 20 demes, so cmap must be specified. Good luck!''))"
    by simp
  from size_history_default_cmap [OF c, of dozen_demes_graph no_ancestor_size None] dozen
  have B: "size_history no_ancestor_size dozen_demes_graph None default_options =
     size_history no_ancestor_size dozen_demes_graph None (default_options\<lparr>cmap := Some Tab20\<rparr>)"
    by simp
  from size_history_default_cmap [OF c, of jump_graph no_ancestor_size None] one
  have C: "size_history no_ancestor_size jump_graph None default_options =
     size_history no_ancestor_size jump_graph None (default_options\<lparr>cmap := Some Tab10\<rparr>)"
    and D: "\<forall>cs j k. size_history_calls no_ancestor_size jump_graph default_options = (cs, None) \<and>
        j < length (demes jump_graph) \<and> k < length (epochs (demes jump_graph ! j)) \<longrightarrow>
        (\<exists>x y kw. Plot x y kw \<in> set cs \<and>
           kw = plot_kwargs jump_graph Tab10 j (demes jump_graph ! j) \<and>
           color kw = Colour Tab10 j)"
    by simp_all
  from D run have "\<exists>x y kw. Plot x y kw
        \<in> set (fst (size_history_calls no_ancestor_size jump_graph default_options)) \<and>
      color kw = Colour Tab10 0"
    by blast
  with A B C show ?thesis by simp
qed

theorem size_history_log_x_end_time_witness:
  "(\<exists>rest. epoch_body jump_graph log_x_options (exp (ln 100 / (9 / 10))) Tab10 0 jump_deme
        (1, jump_epoch) =
      (Plot [Finite 100, Finite 1] [Real 3000, Real 3000]
         (plot_kwargs jump_graph Tab10 0 jump_deme) # rest, None)) \<and>
   (\<exists>rest. epoch_body jump_graph default_options (1000 / 9) Tab10 0 jump_deme (1, jump_epoch) =
      (Plot [Finite 100, Finite 0] [Real 3000, Real 3000]
         (plot_kwargs jump_graph Tab10 0 jump_deme) # rest, None)) \<and>
   (\<exists>x y rest. epoch_body example_graph log_x_options (exp (ln 100 / (9 / 10))) Tab10 0
        example_deme (1, growth_epoch) =
        (Plot (map Finite x) y (plot_kwargs example_graph Tab10 0 example_deme) # rest, None) \<and>
      last x = 1) \<and>
   set (fst (epoch_body jump_graph log_x_options (exp (ln 100 / (9 / 10))) Tab10 0 jump_deme
        (1, jump_epoch)))
     \<subseteq> set (fst (size_history_calls no_ancestor_size jump_graph log_x_options))"
proof -
  have o: "log_x log_x_options" "num_exp_points log_x_options = 100"
    "\<not> log_x default_options"
    by (simp_all add: log_x_options_def default_options_def)
  have g: "size_function growth_epoch = ''exponential''" "start_size growth_epoch \<noteq> 0"
    "end_time growth_epoch = 0"
    by (simp_all add: growth_epoch_def)
  have r: "0 < length (demes jump_graph)" "jump_deme = demes jump_graph ! 0"
    "1 < length (epochs jump_deme)" "jump_epoch = epochs jump_deme ! 1"
    by (simp_all add: jump_graph_fields)
  note w1 = size_history_log_x_end_time [where e = jump_epoch and g = jump_graph
      and opts = log_x_options and ist = "exp (ln 100 / (9 / 10))" and cm = Tab10 and j = 0
      and d = jump_deme and k = 1 and sz = no_ancestor_size
      and cs = "fst (size_history_calls no_ancestor_size jump_graph log_x_options)"]
  note w2 = size_history_log_x_end_time [where e = jump_epoch and g = jump_graph
      and opts = default_options and ist = "1000 / 9" and cm = Tab10 and j = 0
      and d = jump_deme and k = 1 and sz = no_ancestor_size and cs = "[]"]
  note w3 = size_history_log_x_end_time [where e = growth_epoch and g = example_graph
      and opts = log_x_options and ist = "exp (ln 100 / (9 / 10))" and cm = Tab10 and j = 0
      and d = example_deme and k = 1 and sz = no_ancestor_size and cs = "[]"]
  have A: "\<exists>rest. epoch_body jump_graph log_x_options (exp (ln 100 / (9 / 10))) Tab10 0 jump_deme
        (1, jump_epoch) =
      (Plot [Finite 100, Finite 1] [Real 3000, Real 3000]
         (plot_kwargs jump_graph Tab10 0 jump_deme) # rest, None)"
    using w1 o by (simp add: epoch_fields plot_start_time_def)
  have B: "\<exists>rest. epoch_body jump_graph default_options (1000 / 9) Tab10 0 jump_deme
        (1, jump_epoch) =
      (Plot [Finite 100, Finite 0] [Real 3000, Real 3000]
         (plot_kwargs jump_graph Tab10 0 jump_deme) # rest, None)"
    using w2 o by (simp add: epoch_fields plot_start_time_def)
  have C: "\<exists>x y rest. epoch_body example_graph log_x_options (exp (ln 100 / (9 / 10))) Tab10 0
        example_deme (1, growth_epoch) =
        (Plot (map Finite x) y (plot_kwargs example_graph Tab10 0 example_deme) # rest, None) \<and>
      last x = 1"
    using w3 o g by auto
  have D: "set (fst (epoch_body jump_graph log_x_options (exp (ln 100 / (9 / 10))) Tab10 0
        jump_deme (1, jump_epoch)))
     \<subseteq> set (fst (size_history_calls no_ancestor_size jump_graph log_x_options))"
    using w1 jump_run_log_x jump_cmap(2) jump_horizon(2) r by simp
  from A B C D show ?thesis by blast
qed

lemma negative_fields:
  "demes negative_graph = [negative_deme]"
  "epochs negative_deme = [negative_root_epoch, negative_epoch]"
  "deme_start_time negative_deme = Inf" "ancestors negative_deme = []"
  "start_time negative_root_epoch = Inf" "end_time negative_root_epoch = 100"
  "start_size negative_root_epoch = - 1000" "end_size negative_root_epoch = - 1000"
  "size_function negative_root_epoch = ''constant''"
  "start_time negative_epoch = Finite 100" "end_time negative_epoch = 0"
  "start_size negative_epoch = - 1000" "end_size negative_epoch = - 2000"
  "size_function negative_epoch = ''exponential''"
  by (simp_all add: negative_graph_def negative_deme_def negative_root_epoch_def
      negative_epoch_def)

lemma two_point_fields:
  "inf_ratio two_point_options = 1 / 10" "\<not> inf_label two_point_options"
  "\<not> invert_x two_point_options" "num_exp_points two_point_options = 2"
  "\<not> annotate_epochs two_point_options" "cmap two_point_options = None"
  "\<not> log_x two_point_options"
  by (simp_all add: two_point_options_def)

lemma negative_sizes: "exp_rate negative_epoch = Inr (Real (ln 2))"
  by (simp add: exp_rate_def py_div_def np_log_def negative_fields)

text \<open>
  The claim C9 as it is written fails for sizes that are both negative: with two samples
  the run completes, and the exponential epoch from -1000 to -2000 is plotted with
  exactly these sizes.
\<close>

theorem size_history_negative_sizes_counterexample:
  "size_history no_ancestor_size negative_graph None two_point_options =
     ([Plot [Finite (1000 / 9), Finite 100] [Real (- 1000), Real (- 1000)]
         (plot_kwargs negative_graph Tab10 0 negative_deme),
       Plot [Finite 100, Finite 0] [Real (- 1000), Real (- 2000)]
         (plot_kwargs negative_graph Tab10 0 negative_deme),
       PlotMarker (1000 / 9) (- 1000) ''>k'' (Colour Tab10 0) (z_top negative_graph)] @
      finish_axes negative_graph two_point_options (1000 / 9) Tab10, None)"
proof -
  have cm: "choose_cmap (cmap two_point_options) (length (demes negative_graph)) = Inr Tab10"
    by (simp add: choose_cmap_def negative_fields two_point_fields)
  have ist: "inf_start_time negative_graph (inf_ratio two_point_options)
      (log_x two_point_options) = Inr (1000 / 9)"
    by (simp add: inf_start_time_def oldest_noninf_time_def negative_fields two_point_fields
        py_div_def)
  have e1: "epoch_coords (1000 / 9) False 2 1 negative_epoch =
      Inr ([100, 0], [Real (- 1000), Real (- 2000)])"
    by (simp add: epoch_coords_def negative_fields linspace_two negative_sizes exp_size_def
        plot_start_time_def plot_end_time_def)
  have d: "deme_body no_ancestor_size negative_graph two_point_options (1000 / 9) Tab10
      (0, negative_deme) =
      ([Plot [Finite (1000 / 9), Finite 100] [Real (- 1000), Real (- 1000)]
          (plot_kwargs negative_graph Tab10 0 negative_deme),
        Plot [Finite 100, Finite 0] [Real (- 1000), Real (- 2000)]
          (plot_kwargs negative_graph Tab10 0 negative_deme),
        PlotMarker (1000 / 9) (- 1000) ''>k'' (Colour Tab10 0) (z_top negative_graph)], None)"
    using e1
    by (simp add: deme_body_def epoch_body_def epoch_coords_def negative_fields two_point_fields
        plot_start_time_def plot_end_time_def infinity_arrow_def and_then_def)
  have "size_history_calls no_ancestor_size negative_graph two_point_options =
     ([Plot [Finite (1000 / 9), Finite 100] [Real (- 1000), Real (- 1000)]
         (plot_kwargs negative_graph Tab10 0 negative_deme),
       Plot [Finite 100, Finite 0] [Real (- 1000), Real (- 2000)]
         (plot_kwargs negative_graph Tab10 0 negative_deme),
       PlotMarker (1000 / 9) (- 1000) ''>k'' (Colour Tab10 0) (z_top negative_graph)] @
      finish_axes negative_graph two_point_options (1000 / 9) Tab10, None)"
    unfolding size_history_calls_def cm ist
    using d by (simp add: negative_fields and_then_def)
  then show ?thesis
    by (simp add: size_history_def)
qed

theorem exponential_sizes_unguarded_witness:
  "epoch_body example_graph default_options (1000 / 9) Tab10 0 example_deme
     (1, zero_start_epoch) = ([], Some ZeroDivisionError) \<and>
   (\<exists>x y rest. epoch_body example_graph default_options (1000 / 9) Tab10 0 example_deme
        (1, zero_end_epoch) =
        (Plot (map Finite x) y (plot_kwargs example_graph Tab10 0 example_deme) # rest, None) \<and>
      length y = 100 \<and> hd y = NaN \<and> (\<nexists>ys. y = map Real ys)) \<and>
   exp_rate zero_end_epoch = Inr NegInf \<and>
   (\<exists>x y rest ys. epoch_body example_graph default_options (1000 / 9) Tab10 0 example_deme
        (1, growth_epoch) =
        (Plot (map Finite x) y (plot_kwargs example_graph Tab10 0 example_deme) # rest, None) \<and>
      y = map Real ys) \<and>
   (\<exists>x y rest ys. epoch_body example_graph default_options (1000 / 9) Tab10 0 example_deme
        (1, negative_epoch) =
        (Plot (map Finite x) y (plot_kwargs example_graph Tab10 0 example_deme) # rest, None) \<and>
      y = map Real ys)"
proof -
  have n: "num_exp_points default_options = 100"
    by (simp add: default_options_def)
  have sf: "size_function zero_start_epoch = ''exponential''"
    "size_function zero_end_epoch = ''exponential''"
    "size_function growth_epoch = ''exponential''"
    "size_function negative_epoch = ''exponential''"
    by (simp_all add: zero_start_epoch_def zero_end_epoch_def growth_epoch_def
        negative_epoch_def)
  have n0: "0 \<le> num_exp_points default_options"
    by (simp add: n)
  have s: "start_size zero_start_epoch = 0"
    "start_size zero_end_epoch = 1000" "end_size zero_end_epoch = 0"
    "start_size growth_epoch = 1000" "end_size growth_epoch = 2000"
    "start_size negative_epoch = - 1000" "end_size negative_epoch = - 2000"
    by (simp_all add: zero_start_epoch_def zero_end_epoch_def growth_epoch_def
        negative_epoch_def)
  note t = exponential_sizes_unguarded [where opts = default_options and g = example_graph
      and ist = "1000 / 9" and cm = Tab10 and j = 0 and d = example_deme and k = 1]
  have A: "epoch_body example_graph default_options (1000 / 9) Tab10 0 example_deme
      (1, zero_start_epoch) = ([], Some ZeroDivisionError)"
    using t [OF sf(1) n0] s by simp
  have B: "(\<exists>x y rest. epoch_body example_graph default_options (1000 / 9) Tab10 0 example_deme
        (1, zero_end_epoch) =
        (Plot (map Finite x) y (plot_kwargs example_graph Tab10 0 example_deme) # rest, None) \<and>
      length y = 100 \<and> hd y = NaN \<and> (\<nexists>ys. y = map Real ys)) \<and>
      exp_rate zero_end_epoch = Inr NegInf"
    using t [OF sf(2) n0] s n by auto
  have C: "\<exists>x y rest ys. epoch_body example_graph default_options (1000 / 9) Tab10 0
        example_deme (1, growth_epoch) =
        (Plot (map Finite x) y (plot_kwargs example_graph Tab10 0 example_deme) # rest, None) \<and>
      y = map Real ys"
    using t [OF sf(3) n0] s n by auto
  have D: "\<exists>x y rest ys. epoch_body example_graph default_options (1000 / 9) Tab10 0
        example_deme (1, negative_epoch) =
        (Plot (map Finite x) y (plot_kwargs example_graph Tab10 0 example_deme) # rest, None) \<and>
      y = map Real ys"
    using t [OF sf(4) n0] s n by auto
  from A B C D show ?thesis by blast
qed

end
